theory Spec2Isabelle
  imports Complex_Main
begin

section \<open>Booking engine: reservation intake, notification and availability\<close>

text \<open>
  A shallow embedding of \<^verbatim>\<open>backend/main.py\<close> and \<^verbatim>\<open>schemas.py\<close>. Every request
  handler is a function from the process environment, the state of the world before the
  request and the request body to a response or a raised exception, together with the
  state afterwards. A price is a Python float: here a real number, and the product of
  a price and a number of nights is rounded as the float product is.
\<close>

subsection \<open>Exceptions\<close>

text \<open>
  \<^verbatim>\<open>HTTPException(status_code, detail)\<close> is raised by the handlers themselves. A pydantic
  \<^verbatim>\<open>ValidationError\<close> raised while a handler builds a model (it names the fields that
  failed) and a \<^verbatim>\<open>ValueError\<close> are not caught by the handlers: the framework answers them
  with status 500. \<^verbatim>\<open>InvalidId\<close> is what \<^verbatim>\<open>bson.ObjectId\<close> raises on a malformed identifier.
\<close>

datatype error =
    HTTPException nat string
  | ValidationError "string list"
  | ValueError string
  | InvalidId string

fun status_code :: "error \<Rightarrow> nat" where
  "status_code (HTTPException c d) = c"
| "status_code (ValidationError fs) = 500"
| "status_code (ValueError m) = 500"
| "status_code (InvalidId m) = 500"

definition NotFound :: error where
  "NotFound = HTTPException 404 ''Room type not found''"

definition InvalidRange :: error where
  "InvalidRange = HTTPException 400 ''check_out must be after check_in''"

subsection \<open>Dates\<close>

text \<open>
  \<^verbatim>\<open>datetime.date\<close>: a year, a month and a day. The difference of two dates is a
  \<^verbatim>\<open>timedelta\<close> whose \<^verbatim>\<open>days\<close> is the difference of their proleptic Gregorian ordinals,
  computed as the standard library does.
\<close>

record date =
  d_year :: int
  d_month :: int
  d_day :: int

definition is_leap :: "int \<Rightarrow> bool" where
  "is_leap y = (y mod 4 = 0 \<and> (y mod 100 \<noteq> 0 \<or> y mod 400 = 0))"

definition days_before_year :: "int \<Rightarrow> int" where
  "days_before_year year =
     (let y = year - 1 in y * 365 + y div 4 - y div 100 + y div 400)"

definition DAYS_IN_MONTH :: "int list" where
  "DAYS_IN_MONTH = [- 1, 31, 28, 31, 30, 31, 30, 31, 31, 30, 31, 30, 31]"

definition DAYS_BEFORE_MONTH :: "int list" where
  "DAYS_BEFORE_MONTH = [- 1, 0, 31, 59, 90, 120, 151, 181, 212, 243, 273, 304, 334]"

definition days_in_month :: "int \<Rightarrow> int \<Rightarrow> int" where
  "days_in_month year month =
     (if month = 2 \<and> is_leap year then 29 else DAYS_IN_MONTH ! nat month)"

definition days_before_month :: "int \<Rightarrow> int \<Rightarrow> int" where
  "days_before_month year month =
     DAYS_BEFORE_MONTH ! nat month + (if 2 < month \<and> is_leap year then 1 else 0)"

definition toordinal :: "date \<Rightarrow> int" where
  "toordinal d =
     days_before_year (d_year d) + days_before_month (d_year d) (d_month d) + d_day d"

text \<open>The dates that a \<^verbatim>\<open>date\<close> object can hold.\<close>

definition valid_date :: "date \<Rightarrow> bool" where
  "valid_date d =
     (1 \<le> d_year d \<and> d_year d \<le> 9999 \<and> 1 \<le> d_month d \<and> d_month d \<le> 12 \<and>
      1 \<le> d_day d \<and> d_day d \<le> days_in_month (d_year d) (d_month d))"

text \<open>\<^verbatim>\<open>(a - b).days\<close>\<close>

definition days_between :: "date \<Rightarrow> date \<Rightarrow> int" where
  "days_between a b = toordinal a - toordinal b"

text \<open>Comparison of dates is comparison of (year, month, day).\<close>

definition date_less :: "date \<Rightarrow> date \<Rightarrow> bool" where
  "date_less a b =
     (d_year a < d_year b \<or>
      (d_year a = d_year b \<and>
        (d_month a < d_month b \<or> (d_month a = d_month b \<and> d_day a < d_day b))))"

definition date_le :: "date \<Rightarrow> date \<Rightarrow> bool" where
  "date_le a b = (date_less a b \<or> a = b)"

subsection \<open>Timestamps and confirmation codes\<close>

record datetime =
  dt_year :: int
  dt_month :: int
  dt_day :: int
  dt_hour :: int
  dt_minute :: int
  dt_second :: int

definition digit :: "int \<Rightarrow> char" where
  "digit n = ''0123456789'' ! nat (n mod 10)"

definition pad2 :: "int \<Rightarrow> string" where
  "pad2 n = [digit (n div 10), digit n]"

definition pad4 :: "int \<Rightarrow> string" where
  "pad4 n = [digit (n div 1000), digit (n div 100), digit (n div 10), digit n]"

text \<open>\<^verbatim>\<open>strftime('%Y%m%d%H%M%S')\<close>, for the four-digit years of a running clock.\<close>

definition strftime_YmdHMS :: "datetime \<Rightarrow> string" where
  "strftime_YmdHMS t =
     pad4 (dt_year t) @ pad2 (dt_month t) @ pad2 (dt_day t) @
     pad2 (dt_hour t) @ pad2 (dt_minute t) @ pad2 (dt_second t)"

text \<open>\<^verbatim>\<open>date.__str__\<close>: the ISO form, as an f-string prints a date.\<close>

definition isoformat :: "date \<Rightarrow> string" where
  "isoformat d = pad4 (d_year d) @ ''-'' @ pad2 (d_month d) @ ''-'' @ pad2 (d_day d)"

text \<open>\<^verbatim>\<open>str\<close> of an integer, as an f-string prints it.\<close>

fun str_nat :: "nat \<Rightarrow> string" where
  "str_nat n = (if n < 10 then [digit (int n)] else str_nat (n div 10) @ [digit (int n)])"

declare str_nat.simps [simp del]

definition str_int :: "int \<Rightarrow> string" where
  "str_int i = (if i < 0 then ''-'' @ str_nat (nat (- i)) else str_nat (nat i))"

subsection \<open>The process environment\<close>

text \<open>
  What a request reads from outside the program: the environment variables, the clock,
  and the outcome of an SMTP session (\<open>None\<close> when the session completes, the text of the
  exception when any step of it raises). Library functions are parameters as well:
  the check that pydantic's \<^verbatim>\<open>EmailStr\<close> applies to an address, the normalised address
  that it returns for one that passes, and \<^verbatim>\<open>str\<close> of a float.
\<close>

record smtp_session =
  s_host :: string
  s_port :: int
  s_login :: "(string \<times> string) option"
  s_subject :: string
  s_from :: string
  s_to :: string
  s_body :: string

record env =
  environ :: "string \<Rightarrow> string option"
  utcnow :: datetime
  smtp :: "smtp_session \<Rightarrow> string option"
  EmailStr :: "string \<Rightarrow> bool"
  EmailStr_normalized :: "string \<Rightarrow> string"
  str_float :: "real \<Rightarrow> string"

text \<open>\<^verbatim>\<open>os.getenv(name)\<close> and \<^verbatim>\<open>os.getenv(name, default)\<close>\<close>

definition getenv :: "env \<Rightarrow> string \<Rightarrow> string option" where
  "getenv e name = environ e name"

definition getenv_default :: "env \<Rightarrow> string \<Rightarrow> string \<Rightarrow> string" where
  "getenv_default e name dflt = (case environ e name of None \<Rightarrow> dflt | Some v \<Rightarrow> v)"

text \<open>Truth value of an optional string: \<^verbatim>\<open>None\<close> and the empty string are false.\<close>

definition truthy :: "string option \<Rightarrow> bool" where
  "truthy v = (case v of None \<Rightarrow> False | Some s \<Rightarrow> s \<noteq> [])"

text \<open>\<^verbatim>\<open>v or dflt\<close> for an optional string \<open>v\<close>\<close>

definition or_else :: "string option \<Rightarrow> string \<Rightarrow> string" where
  "or_else v dflt = (case v of None \<Rightarrow> dflt | Some s \<Rightarrow> if s \<noteq> [] then s else dflt)"

text \<open>
  \<^verbatim>\<open>int(s)\<close> for a string: surrounding whitespace is stripped, a sign may come first, then
  decimal digits, where single underscores may stand between digits; at most 4300 digits.
  Anything else raises \<^verbatim>\<open>ValueError\<close> (\<open>None\<close> here). A character is a code point below 256;
  among these, the whitespace that \<^verbatim>\<open>int\<close> strips is the ASCII whitespace, the next-line
  control \<^verbatim>\<open>U+0085\<close> and the no-break space \<^verbatim>\<open>U+00A0\<close>.
\<close>

definition is_ascii_space :: "char \<Rightarrow> bool" where
  "is_ascii_space c = (c \<in> set [CHR '' '', CHR 0x09, CHR 0x0A, CHR 0x0B, CHR 0x0C, CHR 0x0D])"

definition is_space :: "char \<Rightarrow> bool" where
  "is_space c = (is_ascii_space c \<or> c = CHR 0x85 \<or> c = CHR 0xA0)"

definition strip :: "string \<Rightarrow> string" where
  "strip s = rev (dropWhile is_space (rev (dropWhile is_space s)))"

definition is_digit :: "char \<Rightarrow> bool" where
  "is_digit c = (c \<in> set ''0123456789'')"

definition digit_val :: "char \<Rightarrow> int" where
  "digit_val c = int (length (takeWhile (\<lambda>d. d \<noteq> c) ''0123456789''))"

fun underscores_ok :: "string \<Rightarrow> bool" where
  "underscores_ok [] = False"
| "underscores_ok [c] = is_digit c"
| "underscores_ok (c # d # cs) =
     (is_digit c \<and> (if d = CHR ''_'' then underscores_ok cs else underscores_ok (d # cs)))"

definition digits_val :: "string \<Rightarrow> int" where
  "digits_val ds = foldl (\<lambda>acc c. acc * 10 + digit_val c) 0 ds"

definition int_of_str :: "string \<Rightarrow> int option" where
  "int_of_str s =
     (let t = strip s;
          neg = (t \<noteq> [] \<and> hd t = CHR ''-'');
          body = (if t \<noteq> [] \<and> (hd t = CHR ''-'' \<or> hd t = CHR ''+'') then tl t else t);
          ds = filter is_digit body
      in if underscores_ok body \<and> length ds \<le> 4300
         then Some (if neg then - digits_val ds else digits_val ds)
         else None)"

subsection \<open>Floats\<close>

text \<open>
  A Python float is an IEEE 754 double. The model keeps the finite ones, as the real
  numbers they are; the sign of zero, the infinities and \<^verbatim>\<open>nan\<close> are left out. An
  arithmetic result is the exact result rounded to the nearest double, a tie going to
  the even significand: a double near \<open>x\<close> with \<open>2^e \<le> |x| < 2^(e+1)\<close> is a multiple of
  \<open>2^(e-52)\<close>, and of \<open>2^(-1074)\<close> below the normal range. A result of \<open>2^1024\<close> or more is
  infinite in Python and outside the model.
\<close>

definition pow2 :: "int \<Rightarrow> real" where
  "pow2 k = (if 0 \<le> k then 2 ^ nat k else 1 / 2 ^ nat (- k))"

definition round_half_even :: "real \<Rightarrow> int" where
  "round_half_even y =
     (let f = \<lfloor>y\<rfloor>
      in if y - real_of_int f < 1 / 2 then f
         else if 1 / 2 < y - real_of_int f then f + 1
         else if even f then f else f + 1)"

definition float_round :: "real \<Rightarrow> real" where
  "float_round x =
     (if x = 0 then 0
      else (let e = max \<lfloor>log 2 \<bar>x\<bar>\<rfloor> (- 1022);
                q = pow2 (e - 52)
            in sgn x * real_of_int (round_half_even (\<bar>x\<bar> / q)) * q))"

text \<open>
  \<^verbatim>\<open>a * n\<close> for a float \<open>a\<close> and an int \<open>n\<close>: the int becomes a float, exactly when it is
  below \<open>2^53\<close> as a number of nights is, and the product is rounded.
\<close>

definition float_mul :: "real \<Rightarrow> int \<Rightarrow> real" where
  "float_mul a n = float_round (a * real_of_int n)"

subsection \<open>Schemas\<close>

text \<open>
  The models of \<^verbatim>\<open>schemas.py\<close> as records. A request body reaches its handler after the
  framework has validated it against the request model, so a request record holds the
  values after defaults are filled in. \<^verbatim>\<open>CreateReservationRequest\<close> and
  \<^verbatim>\<open>OTAWebhookPayload\<close> put no bound on \<^verbatim>\<open>guests\<close>. A \<open>char\<close> stands for one character
  of a Python string, so \<open>length\<close> is what \<^verbatim>\<open>min_length\<close> and \<^verbatim>\<open>max_length\<close> count.
\<close>

record ReservationGuest =
  g_first_name :: string
  g_last_name :: string
  g_email :: string
  g_phone :: "string option"

record Reservation =
  r_property_id :: string
  r_room_type_id :: string
  r_check_in :: date
  r_check_out :: date
  r_guests :: int
  r_total_price :: real
  r_currency :: string
  r_channel :: string
  r_status :: string
  r_guest :: ReservationGuest
  r_special_requests :: "string option"
  r_confirmation_code :: "string option"

record CreateReservationRequest =
  req_property_id :: string
  req_room_type_id :: string
  req_check_in :: date
  req_check_out :: date
  req_guests :: int
  req_guest :: ReservationGuest
  req_special_requests :: "string option"

record OTAWebhookPayload =
  ota_property_id :: string
  ota_room_type_id :: string
  ota_check_in :: date
  ota_check_out :: date
  ota_guests :: int
  ota_guest :: ReservationGuest
  ota_total_price :: "real option"
  ota_currency :: "string option"
  ota_channel :: string
  ota_confirmation_code :: "string option"

record AvailabilitySearch =
  as_property_id :: string
  as_check_in :: date
  as_check_out :: date
  as_guests :: int

record AvailabilityResultItem =
  i_room_type_id :: string
  i_name :: string
  i_description :: "string option"
  i_max_guests :: int
  i_nightly_price :: real
  i_available :: bool

record EmailNotification =
  n_to :: string
  n_subject :: string
  n_body :: string
  n_sent_at :: "datetime option"

record response =
  resp_id :: string
  resp_confirmation_code :: string

text \<open>
  Building a \<^verbatim>\<open>Reservation\<close> runs the field constraints of the model:
  \<^verbatim>\<open>guests: ge=1\<close>, \<^verbatim>\<open>total_price: ge=0\<close>, \<^verbatim>\<open>currency: min_length=3, max_length=3\<close>.
  A failure raises one \<^verbatim>\<open>ValidationError\<close> listing every field that failed.
\<close>

definition Reservation_errors :: "Reservation \<Rightarrow> string list" where
  "Reservation_errors r =
     (if 1 \<le> r_guests r then [] else [''guests'']) @
     (if 0 \<le> r_total_price r then [] else [''total_price'']) @
     (if 3 \<le> length (r_currency r) \<and> length (r_currency r) \<le> 3 then [] else [''currency''])"

definition new_Reservation :: "Reservation \<Rightarrow> error + Reservation" where
  "new_Reservation r =
     (if Reservation_errors r = [] then Inr r else Inl (ValidationError (Reservation_errors r)))"

text \<open>
  Building an \<^verbatim>\<open>EmailNotification\<close> checks that \<^verbatim>\<open>to\<close> is an \<^verbatim>\<open>EmailStr\<close> and keeps the
  normalised address.
\<close>

definition new_EmailNotification :: "env \<Rightarrow> string \<Rightarrow> string \<Rightarrow> string \<Rightarrow> error + EmailNotification" where
  "new_EmailNotification e to subject body =
     (if EmailStr e to
      then Inr \<lparr>n_to = EmailStr_normalized e to, n_subject = subject, n_body = body,
                n_sent_at = None\<rparr>
      else Inl (ValidationError [''to'']))"

subsection \<open>The document store\<close>

text \<open>
  A document of the \<^verbatim>\<open>roomtype\<close> collection, with \<^verbatim>\<open>str(_id)\<close> as \<open>rt_id\<close>. The handlers
  read \<^verbatim>\<open>base_price\<close> with a default (\<^verbatim>\<open>rt.get("base_price", 0)\<close>), so that field may be
  missing from a document (\<open>None\<close>); the other fields are those of \<^verbatim>\<open>RoomType\<close>.
\<close>

record roomtype_doc =
  rt_id :: string
  rt_property_id :: string
  rt_name :: string
  rt_description :: "string option"
  rt_max_guests :: int
  rt_base_price :: "real option"

text \<open>
  The state a request changes: the collections \<^verbatim>\<open>db["roomtype"]\<close> and \<^verbatim>\<open>db["reservation"]\<close>,
  in insertion order, the counter from which the store draws identifiers, and what was printed.
\<close>

record state =
  db_roomtype :: "roomtype_doc list"
  db_reservation :: "(string \<times> Reservation) list"
  oid_counter :: nat
  stdout :: "string list"

text \<open>\<^verbatim>\<open>float(rt.get("base_price", 0))\<close>, for a stored price that is a double.\<close>

definition base_price_of :: "roomtype_doc \<Rightarrow> real" where
  "base_price_of rt = (case rt_base_price rt of None \<Rightarrow> 0 | Some b \<Rightarrow> b)"

text \<open>
  \<^verbatim>\<open>bytes.fromhex(s)\<close>, with the bytes in the form \<^verbatim>\<open>hex\<close> prints, two lower-case digits
  each: ASCII whitespace before a pair of hexadecimal digits, and at the end, is
  skipped; anything else raises \<^verbatim>\<open>ValueError\<close> (\<open>None\<close> here).
\<close>

definition is_hex :: "char \<Rightarrow> bool" where
  "is_hex c = (c \<in> set ''0123456789abcdefABCDEF'')"

definition hex_lower :: "char \<Rightarrow> char" where
  "hex_lower c = (case map_of (zip ''ABCDEF'' ''abcdef'') c of None \<Rightarrow> c | Some l \<Rightarrow> l)"

fun fromhex :: "string \<Rightarrow> string option" where
  "fromhex [] = Some []"
| "fromhex [c] = (if is_ascii_space c then Some [] else None)"
| "fromhex (c # d # cs) =
     (if is_ascii_space c then fromhex (d # cs)
      else if is_hex c \<and> is_hex d
        then (case fromhex cs of None \<Rightarrow> None | Some h \<Rightarrow> Some (hex_lower c # hex_lower d # h))
        else None)"

text \<open>
  \<^verbatim>\<open>bson.ObjectId(s)\<close> for a string: \<^verbatim>\<open>bytes.fromhex(s)\<close> when \<open>s\<close> has 24 characters, else
  \<^verbatim>\<open>InvalidId\<close>, as when \<^verbatim>\<open>fromhex\<close> raises. The identifier is kept in the form \<^verbatim>\<open>str\<close>
  prints: 24 lower-case digits for 24 hexadecimal digits, fewer when there was
  whitespace among the 24 characters.
\<close>

definition ObjectId :: "string \<Rightarrow> error + string" where
  "ObjectId s =
     (if length s = 24
      then (case fromhex s of None \<Rightarrow> Inl (InvalidId s) | Some h \<Rightarrow> Inr h)
      else Inl (InvalidId s))"

text \<open>\<^verbatim>\<open>db["roomtype"].find_one({"_id": ObjectId(s)})\<close>\<close>

definition find_one_roomtype :: "state \<Rightarrow> string \<Rightarrow> error + roomtype_doc option" where
  "find_one_roomtype st s =
     (case ObjectId s of
        Inl e \<Rightarrow> Inl e
      | Inr oid \<Rightarrow> Inr (find (\<lambda>d. rt_id d = oid) (db_roomtype st)))"

text \<open>
  Modelled from the spec: \<^verbatim>\<open>create_document\<close> and \<^verbatim>\<open>get_documents\<close> of the module
  \<^verbatim>\<open>database\<close>, which is not among the sources. The spec gives them as
  \<^verbatim>\<open>create(collection, record) -> id\<close> and \<^verbatim>\<open>query(collection, filter) -> records\<close> with
  store-generated, unique identifiers. Here an identifier is the 24-digit hexadecimal
  form of the store's counter, and a filter on \<^verbatim>\<open>property_id\<close> selects the documents whose
  field equals the given value.
\<close>

definition new_oid :: "nat \<Rightarrow> string" where
  "new_oid n = map (\<lambda>i. ''0123456789abcdef'' ! ((n div 16 ^ i) mod 16)) (rev [0..<24])"

definition create_document_reservation :: "state \<Rightarrow> Reservation \<Rightarrow> string \<times> state" where
  "create_document_reservation st r =
     (let i = new_oid (oid_counter st)
      in (i, st\<lparr>db_reservation := db_reservation st @ [(i, r)],
                 oid_counter := Suc (oid_counter st)\<rparr>))"

definition get_documents_roomtype :: "state \<Rightarrow> string \<Rightarrow> roomtype_doc list" where
  "get_documents_roomtype st property_id =
     filter (\<lambda>d. rt_property_id d = property_id) (db_roomtype st)"

text \<open>The reservations that a request added to the store.\<close>

definition persisted :: "state \<Rightarrow> state \<Rightarrow> Reservation list" where
  "persisted st st' = map snd (drop (length (db_reservation st)) (db_reservation st'))"

subsection \<open>Confirmation codes and notification\<close>

definition generate_confirmation_code :: "env \<Rightarrow> string \<Rightarrow> string" where
  "generate_confirmation_code e prefix = prefix @ ''-'' @ strftime_YmdHMS (utcnow e)"

text \<open>
  \<^verbatim>\<open>send_email\<close>. The port is parsed before anything else is decided and outside the
  \<^verbatim>\<open>try\<close> block; the \<^verbatim>\<open>try\<close> block covers the whole SMTP session.
\<close>

definition send_email :: "env \<Rightarrow> state \<Rightarrow> EmailNotification \<Rightarrow> (error + bool) \<times> state" where
  "send_email e st notification =
     (let host = getenv e ''SMTP_HOST''
      in case int_of_str (getenv_default e ''SMTP_PORT'' ''587'') of
           None \<Rightarrow> (Inl (ValueError (getenv_default e ''SMTP_PORT'' ''587'')), st)
         | Some port \<Rightarrow>
             (let user = getenv e ''SMTP_USER'';
                  password = getenv e ''SMTP_PASS'';
                  sender = getenv_default e ''SMTP_SENDER'' (or_else user ''no-reply@example.com'')
              in if \<not> truthy host
                 then (Inr True,
                       st\<lparr>stdout := stdout st @
                          [''[Email] To: '' @ n_to notification @ '' | Subject: '' @
                           n_subject notification @ [CHR 0x0A] @ n_body notification]\<rparr>)
                 else (case smtp e
                              \<lparr>s_host = or_else host [], s_port = port,
                               s_login = (if truthy user \<and> truthy password
                                          then Some (or_else user [], or_else password [])
                                          else None),
                               s_subject = n_subject notification, s_from = sender,
                               s_to = n_to notification, s_body = n_body notification\<rparr> of
                         None \<Rightarrow> (Inr True, st)
                       | Some exn \<Rightarrow>
                           (Inr False, st\<lparr>stdout := stdout st @ [''Email error: '' @ exn]\<rparr>))))"

text \<open>The bodies of the two notifications.\<close>

definition html_line :: "string \<Rightarrow> string \<Rightarrow> string" where
  "html_line label text = ''    <p><strong>'' @ label @ '':</strong> '' @ text @ ''</p>'' @ [CHR 0x0A]"

definition guest_text :: "ReservationGuest \<Rightarrow> string" where
  "guest_text g = g_first_name g @ '' '' @ g_last_name g @ '' ('' @ g_email g @ '')''"

definition dates_text :: "Reservation \<Rightarrow> int \<Rightarrow> string" where
  "dates_text r nights =
     isoformat (r_check_in r) @ '' to '' @ isoformat (r_check_out r) @
     '' ('' @ str_int nights @ '' nights)''"

definition total_text :: "env \<Rightarrow> Reservation \<Rightarrow> string" where
  "total_text e r = str_float e (r_total_price r) @ '' '' @ r_currency r"

definition direct_body :: "env \<Rightarrow> Reservation \<Rightarrow> string \<Rightarrow> int \<Rightarrow> string" where
  "direct_body e r confirmation_code nights =
     [CHR 0x0A] @ ''    <h2>New Reservation</h2>'' @ [CHR 0x0A] @
     html_line ''Confirmation'' confirmation_code @
     html_line ''Property'' (r_property_id r) @
     html_line ''Room Type'' (r_room_type_id r) @
     html_line ''Dates'' (dates_text r nights) @
     html_line ''Guest'' (guest_text (r_guest r)) @
     html_line ''Total'' (total_text e r) @
     html_line ''Channel'' (r_channel r) @ ''    ''"

definition ota_body :: "env \<Rightarrow> Reservation \<Rightarrow> string \<Rightarrow> string \<Rightarrow> int \<Rightarrow> string" where
  "ota_body e r channel confirmation_code nights =
     [CHR 0x0A] @ ''    <h2>OTA Reservation</h2>'' @ [CHR 0x0A] @
     html_line ''Channel'' channel @
     html_line ''Confirmation'' confirmation_code @
     html_line ''Property'' (r_property_id r) @
     html_line ''Room Type'' (r_room_type_id r) @
     html_line ''Dates'' (dates_text r nights) @
     html_line ''Guest'' (guest_text (r_guest r)) @
     html_line ''Total'' (total_text e r) @ ''    ''"

text \<open>
  The tail that both handlers share once the reservation is built: insert it, build
  the notification, send it, and answer. The value \<^verbatim>\<open>send_email\<close> returns is dropped; an
  exception of the notification step leaves the handler after the insert.
\<close>

definition persist_and_notify ::
  "env \<Rightarrow> state \<Rightarrow> Reservation \<Rightarrow> string \<Rightarrow> string \<Rightarrow> string \<Rightarrow> (error + response) \<times> state" where
  "persist_and_notify e st reservation confirmation_code subject body =
     (let (res_id, st1) = create_document_reservation st reservation;
          to_email = getenv_default e ''BOOKING_NOTIFICATION_EMAIL'' (g_email (r_guest reservation))
      in case new_EmailNotification e to_email subject body of
           Inl err \<Rightarrow> (Inl err, st1)
         | Inr notification \<Rightarrow>
             (case send_email e st1 notification of
                (Inl err, st2) \<Rightarrow> (Inl err, st2)
              | (Inr sent, st2) \<Rightarrow>
                  (Inr \<lparr>resp_id = res_id, resp_confirmation_code = confirmation_code\<rparr>, st2)))"

subsection \<open>The handlers\<close>

text \<open>\<^verbatim>\<open>POST /api/reservations\<close>\<close>

definition create_reservation ::
  "env \<Rightarrow> state \<Rightarrow> CreateReservationRequest \<Rightarrow> (error + response) \<times> state" where
  "create_reservation e st payload =
     (let rt = (case find_one_roomtype st (req_room_type_id payload) of
                  Inl exn \<Rightarrow> None
                | Inr found \<Rightarrow> found)
      in case rt of
           None \<Rightarrow> (Inl (HTTPException 404 ''Room type not found''), st)
         | Some rt \<Rightarrow>
             (let nights = days_between (req_check_out payload) (req_check_in payload)
              in if nights \<le> 0
                 then (Inl (HTTPException 400 ''check_out must be after check_in''), st)
                 else
                   (let total_price = float_mul (base_price_of rt) nights;
                        confirmation_code = generate_confirmation_code e ''RES''
                    in case new_Reservation
                              \<lparr>r_property_id = req_property_id payload,
                               r_room_type_id = req_room_type_id payload,
                               r_check_in = req_check_in payload,
                               r_check_out = req_check_out payload,
                               r_guests = req_guests payload,
                               r_total_price = total_price,
                               r_currency = ''USD'',
                               r_channel = ''direct'',
                               r_status = ''confirmed'',
                               r_guest = req_guest payload,
                               r_special_requests = req_special_requests payload,
                               r_confirmation_code = Some confirmation_code\<rparr> of
                         Inl err \<Rightarrow> (Inl err, st)
                       | Inr reservation \<Rightarrow>
                           persist_and_notify e st reservation confirmation_code
                             (''New Reservation '' @ confirmation_code)
                             (direct_body e reservation confirmation_code nights))))"

text \<open>\<^verbatim>\<open>POST /api/ota/webhook\<close>\<close>

definition ota_webhook ::
  "env \<Rightarrow> state \<Rightarrow> OTAWebhookPayload \<Rightarrow> (error + response) \<times> state" where
  "ota_webhook e st payload =
     (let confirmation_code =
            or_else (ota_confirmation_code payload) (generate_confirmation_code e ''OTA'');
          nights = days_between (ota_check_out payload) (ota_check_in payload)
      in if nights \<le> 0
         then (Inl (HTTPException 400 ''check_out must be after check_in''), st)
         else
           (let base_price =
                  (case find_one_roomtype st (ota_room_type_id payload) of
                     Inl exn \<Rightarrow> 0
                   | Inr None \<Rightarrow> 0
                   | Inr (Some rt) \<Rightarrow> base_price_of rt);
                total_price =
                  (case ota_total_price payload of
                     Some p \<Rightarrow> p
                   | None \<Rightarrow> float_mul base_price nights)
            in case new_Reservation
                      \<lparr>r_property_id = ota_property_id payload,
                       r_room_type_id = ota_room_type_id payload,
                       r_check_in = ota_check_in payload,
                       r_check_out = ota_check_out payload,
                       r_guests = ota_guests payload,
                       r_total_price = total_price,
                       r_currency = or_else (ota_currency payload) ''USD'',
                       r_channel = ota_channel payload,
                       r_status = ''confirmed'',
                       r_guest = ota_guest payload,
                       r_special_requests = None,
                       r_confirmation_code = Some confirmation_code\<rparr> of
                 Inl err \<Rightarrow> (Inl err, st)
               | Inr reservation \<Rightarrow>
                   persist_and_notify e st reservation confirmation_code
                     (''OTA Reservation '' @ confirmation_code @ '' ('' @ ota_channel payload @ '')'')
                     (ota_body e reservation (ota_channel payload) confirmation_code nights)))"

text \<open>\<^verbatim>\<open>POST /api/availability\<close>: the loop over the documents of the property.\<close>

fun availability_items :: "roomtype_doc list \<Rightarrow> AvailabilityResultItem list \<Rightarrow> AvailabilityResultItem list" where
  "availability_items [] items = items"
| "availability_items (rt # room_types) items =
     availability_items room_types
       (items @ [\<lparr>i_room_type_id = rt_id rt, i_name = rt_name rt,
                   i_description = rt_description rt, i_max_guests = rt_max_guests rt,
                   i_nightly_price = base_price_of rt, i_available = True\<rparr>])"

definition search_availability :: "state \<Rightarrow> AvailabilitySearch \<Rightarrow> AvailabilityResultItem list" where
  "search_availability st payload =
     availability_items (get_documents_roomtype st (as_property_id payload)) []"

subsection \<open>The examples of the specification\<close>

text \<open>
  Property P with room type R (base price 100, at most 2 guests) and a second room type,
  a room type of another property, and a booking of R from 2024-01-01 to 2024-01-04.
  No mail transport is configured in the example environment.
\<close>

definition example_env :: env where
  "example_env =
     \<lparr>environ = (\<lambda>name. None),
      utcnow = \<lparr>dt_year = 2024, dt_month = 1, dt_day = 1,
                 dt_hour = 12, dt_minute = 30, dt_second = 5\<rparr>,
      smtp = (\<lambda>session. None),
      EmailStr = (\<lambda>s. CHR ''@'' \<in> set s),
      EmailStr_normalized = (\<lambda>s. s),
      str_float = (\<lambda>x. str_int (floor x))\<rparr>"

definition room_R :: roomtype_doc where
  "room_R =
     \<lparr>rt_id = ''65a1f0c2d4e5f6a7b8c9d0e1'', rt_property_id = ''P'', rt_name = ''R'',
      rt_description = None, rt_max_guests = 2, rt_base_price = Some 100\<rparr>"

definition room_S :: roomtype_doc where
  "room_S =
     \<lparr>rt_id = ''65a1f0c2d4e5f6a7b8c9d0e2'', rt_property_id = ''P'', rt_name = ''S'',
      rt_description = Some ''Suite'', rt_max_guests = 4, rt_base_price = Some 180\<rparr>"

definition room_T :: roomtype_doc where
  "room_T =
     \<lparr>rt_id = ''65a1f0c2d4e5f6a7b8c9d0e3'', rt_property_id = ''Q'', rt_name = ''T'',
      rt_description = None, rt_max_guests = 1, rt_base_price = Some 60\<rparr>"

definition example_state :: state where
  "example_state =
     \<lparr>db_roomtype = [room_R, room_S, room_T], db_reservation = [],
      oid_counter = 0, stdout = []\<rparr>"

definition example_guest :: ReservationGuest where
  "example_guest =
     \<lparr>g_first_name = ''Ada'', g_last_name = ''Lovelace'',
      g_email = ''ada@example.com'', g_phone = None\<rparr>"

definition booking_request :: CreateReservationRequest where
  "booking_request =
     \<lparr>req_property_id = ''P'', req_room_type_id = ''65A1F0C2D4E5F6A7B8C9D0E1'',
      req_check_in = \<lparr>d_year = 2024, d_month = 1, d_day = 1\<rparr>,
      req_check_out = \<lparr>d_year = 2024, d_month = 1, d_day = 4\<rparr>,
      req_guests = 2, req_guest = example_guest, req_special_requests = None\<rparr>"

definition webhook_payload :: OTAWebhookPayload where
  "webhook_payload =
     \<lparr>ota_property_id = ''P'', ota_room_type_id = ''65a1f0c2d4e5f6a7b8c9d0e1'',
      ota_check_in = \<lparr>d_year = 2024, d_month = 1, d_day = 1\<rparr>,
      ota_check_out = \<lparr>d_year = 2024, d_month = 1, d_day = 4\<rparr>,
      ota_guests = 2, ota_guest = example_guest, ota_total_price = Some 450,
      ota_currency = Some ''USD'', ota_channel = ''booking.com'',
      ota_confirmation_code = Some ''BK-7731''\<rparr>"

section \<open>Date arithmetic\<close>

text \<open>
  The ordinal of a date is strictly monotone on the dates a \<^verbatim>\<open>date\<close> object can hold, so
  the sign of \<^verbatim>\<open>(check_out - check_in).days\<close> is the order of the two dates.
\<close>

lemma div_step:
  assumes "0 < n"
  shows "(k::int) div n = (k - 1) div n + (if k mod n = 0 then 1 else 0)"
proof -
  define q where "q = (k - 1) div n"
  define r where "r = (k - 1) mod n"
  have r: "0 \<le> r" "r < n" using assms by (simp_all add: r_def)
  have "k - 1 = n * q + r" by (simp add: q_def r_def)
  then have k: "k = n * q + (r + 1)" by simp
  show ?thesis
  proof (cases "r + 1 = n")
    case True
    then have "k = n * (q + 1) + 0" using k by (simp add: algebra_simps)
    then have "k div n = q + 1" "k mod n = 0"
      using assms by (simp_all)
    then show ?thesis by (simp add: q_def)
  next
    case False
    then have b: "0 \<le> r + 1" "r + 1 < n" using r by simp_all
    have "k div n = q" using k b by (rule int_div_pos_eq)
    moreover have "k mod n = r + 1" using k b by (rule int_mod_pos_eq)
    ultimately show ?thesis using r by (simp add: q_def)
  qed
qed

lemma dby_Suc: "days_before_year (y + 1) = days_before_year y + 365 + (if is_leap y then 1 else 0)"
proof -
  define A where "A = (y - 1) div 4"
  define B where "B = (y - 1) div 100"
  define C where "C = (y - 1) div 400"
  have d: "y div 4 = A + (if y mod 4 = 0 then 1 else 0)"
      "y div 100 = B + (if y mod 100 = 0 then 1 else 0)"
      "y div 400 = C + (if y mod 400 = 0 then 1 else 0)"
    unfolding A_def B_def C_def by (rule div_step, simp)+
  have c: "y mod 100 = y mod 400 mod 100" "y mod 4 = y mod 100 mod 4"
    by (simp_all add: mod_mod_cancel)
  have i: "y mod 400 = 0 \<Longrightarrow> y mod 100 = 0" "y mod 100 = 0 \<Longrightarrow> y mod 4 = 0"
    using c by simp_all
  have L: "days_before_year (y + 1) = y * 365 + y div 4 - y div 100 + y div 400"
    by (simp add: days_before_year_def)
  have R: "days_before_year y = (y - 1) * 365 + A - B + C"
    by (simp add: days_before_year_def Let_def A_def B_def C_def)
  have E: "(y - 1) * 365 = y * 365 - 365" by (simp add: algebra_simps)
  show ?thesis
  proof (cases "y mod 4 = 0")
    case False
    then have "y mod 100 \<noteq> 0" "y mod 400 \<noteq> 0" using i by auto
    with False show ?thesis unfolding L R E d is_leap_def by simp
  next
    case y4: True
    show ?thesis
    proof (cases "y mod 100 = 0")
      case False
      then have "y mod 400 \<noteq> 0" using i by auto
      with False y4 show ?thesis unfolding L R E d is_leap_def by simp
    next
      case y100: True
      show ?thesis
      proof (cases "y mod 400 = 0")
        case True
        with y4 y100 show ?thesis unfolding L R E d is_leap_def by simp
      next
        case False
        with y4 y100 show ?thesis unfolding L R E d is_leap_def by simp
      qed
    qed
  qed
qed


lemma month_cases:
  assumes "1 \<le> m" "m \<le> 12"
  shows "m = 1 \<or> m = 2 \<or> m = 3 \<or> m = 4 \<or> m = 5 \<or> m = 6 \<or> m = 7 \<or> m = 8 \<or> m = 9 \<or> m = 10 \<or> m = 11 \<or> m = (12::int)"
  using assms by arith

lemma days_in_month_pos:
  assumes "1 \<le> m" "m \<le> 12"
  shows "28 \<le> days_in_month y m"
  using month_cases [OF assms] unfolding days_in_month_def DAYS_IN_MONTH_def
  by (elim disjE) simp_all

lemma dbm_step:
  assumes "1 \<le> m" "m < 12"
  shows "days_before_month y (m + 1) = days_before_month y m + days_in_month y m"
proof -
  have "m \<le> 12" "m \<noteq> 12" using assms by simp_all
  with month_cases [OF assms(1) this(1)] show ?thesis
    unfolding days_before_month_def days_in_month_def DAYS_BEFORE_MONTH_def DAYS_IN_MONTH_def
    by (elim disjE) simp_all
qed

lemma dbm_le:
  "1 \<le> m \<Longrightarrow> m \<le> m' \<Longrightarrow> m' \<le> 12 \<Longrightarrow> days_before_month y m \<le> days_before_month y m'"
proof (induction "nat (m' - m)" arbitrary: m')
  case 0
  then show ?case by simp
next
  case (Suc n)
  have p: "n = nat ((m' - 1) - m)" "m \<le> m' - 1" "m' - 1 \<le> 12" "1 \<le> m' - 1" "m' - 1 < 12"
    using Suc(2-) by simp_all
  have "days_before_month y m \<le> days_before_month y (m' - 1)"
    using Suc(1) [OF p(1) Suc(3) p(2) p(3)] .
  moreover have "days_before_month y (m' - 1) \<le> days_before_month y m'"
    using dbm_step [OF p(4) p(5), of y] days_in_month_pos [OF p(4) p(3), of y] by simp
  ultimately show ?case by simp
qed

lemma dbm_mono:
  assumes "1 \<le> m" "m < m'" "m' \<le> 12"
  shows "days_before_month y m + days_in_month y m \<le> days_before_month y m'"
proof -
  have "m < 12" "1 \<le> m + 1" "m + 1 \<le> m'" using assms by simp_all
  then show ?thesis
    using dbm_step [OF assms(1), of y] dbm_le [of "m + 1" m' y] assms(3) by simp
qed

lemma dbm_nonneg:
  assumes "1 \<le> m" "m \<le> 12"
  shows "0 \<le> days_before_month y m"
proof -
  have "days_before_month y 1 = 0"
    by (simp add: days_before_month_def DAYS_BEFORE_MONTH_def)
  then show ?thesis using dbm_le [of 1 m y] assms by simp
qed

lemma year_len:
  assumes "1 \<le> m" "m \<le> 12"
  shows "days_before_month y m + days_in_month y m \<le> 365 + (if is_leap y then 1 else 0)"
proof (cases "m = 12")
  case True
  then show ?thesis
    by (simp add: days_before_month_def days_in_month_def DAYS_BEFORE_MONTH_def DAYS_IN_MONTH_def)
next
  case False
  then have "m < 12" using assms by simp
  then have "days_before_month y m + days_in_month y m \<le> days_before_month y 12"
    using assms(1) by (intro dbm_mono) simp_all
  also have "\<dots> \<le> 365 + (if is_leap y then 1 else 0)"
    by (simp add: days_before_month_def DAYS_BEFORE_MONTH_def)
  finally show ?thesis .
qed

lemma dby_mono: "y \<le> y' \<Longrightarrow> days_before_year y \<le> days_before_year y'"
proof (induction "nat (y' - y)" arbitrary: y')
  case 0
  then show ?case by simp
next
  case (Suc n)
  have p: "n = nat ((y' - 1) - y)" "y \<le> y' - 1" using Suc(2-) by simp_all
  have "days_before_year y \<le> days_before_year (y' - 1)" using Suc(1) [OF p] .
  moreover have "days_before_year (y' - 1) \<le> days_before_year y'"
    using dby_Suc [of "y' - 1"] by (simp split: if_splits)
  ultimately show ?case by simp
qed

lemma toordinal_strict_mono:
  assumes "valid_date a" "valid_date b" "date_less a b"
  shows "toordinal a < toordinal b"
proof -
  have va: "1 \<le> d_month a" "d_month a \<le> 12" "d_day a \<le> days_in_month (d_year a) (d_month a)"
    using assms(1) by (simp_all add: valid_date_def)
  have vb: "1 \<le> d_month b" "d_month b \<le> 12" "1 \<le> d_day b"
    using assms(2) by (simp_all add: valid_date_def)
  consider (y) "d_year a < d_year b"
    | (m) "d_year a = d_year b" "d_month a < d_month b"
    | (d) "d_year a = d_year b" "d_month a = d_month b" "d_day a < d_day b"
    using assms(3) unfolding date_less_def by blast
  then show ?thesis
  proof cases
    case y
    have "toordinal a \<le> days_before_year (d_year a) + (365 + (if is_leap (d_year a) then 1 else 0))"
      using va(3) year_len [OF va(1,2), of "d_year a"]
      unfolding toordinal_def by linarith
    also have "\<dots> = days_before_year (d_year a + 1)" using dby_Suc [of "d_year a"] by simp
    also have "\<dots> \<le> days_before_year (d_year b)" using y by (intro dby_mono) simp
    also have "\<dots> < toordinal b"
      using vb(3) dbm_nonneg [OF vb(1,2), of "d_year b"]
      unfolding toordinal_def by linarith
    finally show ?thesis .
  next
    case m
    have "days_before_month (d_year a) (d_month a) + days_in_month (d_year a) (d_month a)
            \<le> days_before_month (d_year a) (d_month b)"
      using va(1) m(2) vb(2) by (rule dbm_mono)
    then show ?thesis
      using m(1) va(3) vb(3) unfolding toordinal_def by simp
  next
    case d
    then show ?thesis unfolding toordinal_def by simp
  qed
qed

lemma date_less_cases: "date_less a b \<or> a = b \<or> date_less b a"
  unfolding date_less_def by (cases a, cases b) auto

lemma nights_pos_iff:
  assumes "valid_date a" "valid_date b"
  shows "0 < days_between b a \<longleftrightarrow> date_less a b"
  using toordinal_strict_mono [OF assms] toordinal_strict_mono [OF assms(2,1)]
    date_less_cases [of a b]
  unfolding days_between_def by auto

lemma nights_nonpos_iff:
  assumes "valid_date a" "valid_date b"
  shows "days_between b a \<le> 0 \<longleftrightarrow> date_le b a"
proof -
  have "\<not> (date_less a b \<and> date_le b a)"
    using toordinal_strict_mono [OF assms] toordinal_strict_mono [OF assms(2,1)]
    unfolding date_le_def by auto
  moreover have "date_less a b \<or> date_le b a"
    using date_less_cases [of a b] unfolding date_le_def by auto
  ultimately show ?thesis
    using nights_pos_iff [OF assms] by auto
qed

section \<open>Float rounding\<close>

lemma pow2_powr: "pow2 k = 2 powr real_of_int k"
  by (simp add: pow2_def powr_real_of_int inverse_eq_divide)

lemma pow2_pos: "0 < pow2 k"
  by (simp add: pow2_def)

lemma round_half_even_nonneg: "0 \<le> y \<Longrightarrow> 0 \<le> round_half_even y"
  by (auto simp: round_half_even_def Let_def)

lemma float_round_nonneg: "0 \<le> x \<Longrightarrow> 0 \<le> float_round x"
  by (auto simp: float_round_def Let_def pow2_pos less_imp_le round_half_even_nonneg
      intro!: mult_nonneg_nonneg)

lemma float_round_0: "float_round 0 = 0"
  by (simp add: float_round_def)

lemma float_mul_nonneg: "0 \<le> a \<Longrightarrow> 0 \<le> n \<Longrightarrow> 0 \<le> float_mul a n"
  by (simp add: float_mul_def float_round_nonneg)

lemma float_mul_0: "float_mul 0 n = 0"
  by (simp add: float_mul_def float_round_0)

text \<open>Once the binary exponent of \<open>x\<close> is known, its rounding is a computation.\<close>

lemma float_round_eval:
  assumes "pow2 e \<le> \<bar>x\<bar>" and "\<bar>x\<bar> < pow2 (e + 1)"
  shows "float_round x =
    sgn x * real_of_int (round_half_even (\<bar>x\<bar> / pow2 (max e (- 1022) - 52))) *
      pow2 (max e (- 1022) - 52)"
proof -
  have x: "0 < \<bar>x\<bar>" using assms(1) pow2_pos [of e] by linarith
  have "\<lfloor>log 2 \<bar>x\<bar>\<rfloor> = e"
    using assms x by (subst floor_log_eq_powr_iff) (simp_all add: pow2_powr)
  then show ?thesis using x by (simp add: float_round_def Let_def)
qed

text \<open>A number with a significand of 53 bits is a double: rounding leaves it as it is.\<close>

lemma pow2_add: "pow2 (a + b) = pow2 a * pow2 b"
  by (simp add: pow2_powr powr_add)

lemma pow2_nat: "0 \<le> j \<Longrightarrow> pow2 j = real_of_int (2 ^ nat j)"
  by (simp add: pow2_def)

lemma round_half_even_of_int: "round_half_even (real_of_int z) = z"
  by (simp add: round_half_even_def)

lemma float_round_representable:
  assumes x: "x = real_of_int m * pow2 k" and m: "\<bar>m\<bar> < 2 ^ 53" and k: "- 1074 \<le> k"
  shows "float_round x = x"
proof (cases "m = 0")
  case True
  then show ?thesis using x by (simp add: float_round_0)
next
  case False
  then have x0: "x \<noteq> 0" using x pow2_pos [of k] by simp
  then have ax: "0 < \<bar>x\<bar>" by simp
  define e where "e = max \<lfloor>log 2 \<bar>x\<bar>\<rfloor> (- 1022)"
  define j where "j = k - (e - 52)"
  have absx: "\<bar>x\<bar> = real_of_int \<bar>m\<bar> * pow2 k"
    using x pow2_pos [of k] by (simp add: abs_mult)
  have "real_of_int \<bar>m\<bar> < 2 ^ 53" using m by (metis of_int_less_numeral_power_cancel_iff)
  then have "\<bar>x\<bar> < pow2 53 * pow2 k"
    using pow2_pos [of k] unfolding absx by (simp add: pow2_def)
  moreover have "pow2 53 * pow2 k = pow2 (k + 53)"
    by (simp only: pow2_add mult.commute)
  ultimately have "\<bar>x\<bar> < pow2 (k + 53)" by simp
  then have "\<bar>x\<bar> < 2 powr real_of_int (k + 53)"
    by (simp only: pow2_powr)
  then have "log 2 \<bar>x\<bar> < real_of_int (k + 53)"
    using ax by (simp add: log_less_iff)
  then have "\<lfloor>log 2 \<bar>x\<bar>\<rfloor> < k + 53" by (simp add: floor_less_iff)
  then have j0: "0 \<le> j" using k unfolding j_def e_def by simp
  have "pow2 k = pow2 j * pow2 (e - 52)"
    unfolding j_def by (simp add: pow2_add [symmetric])
  then have q: "\<bar>x\<bar> / pow2 (e - 52) = real_of_int (\<bar>m\<bar> * 2 ^ nat j)"
    using pow2_pos [of "e - 52"] unfolding absx by (simp add: pow2_nat [OF j0])
  have "float_round x = sgn x * real_of_int (round_half_even (\<bar>x\<bar> / pow2 (e - 52))) * pow2 (e - 52)"
    using x0 by (simp add: float_round_def Let_def e_def)
  also have "\<dots> = sgn x * (\<bar>x\<bar> / pow2 (e - 52)) * pow2 (e - 52)"
    unfolding q round_half_even_of_int ..
  also have "\<dots> = sgn x * \<bar>x\<bar>" using pow2_pos [of "e - 52"] by simp
  also have "\<dots> = x" by (simp add: sgn_mult_abs)
  finally show ?thesis .
qed

lemma round_half_even_error: "\<bar>real_of_int (round_half_even y) - y\<bar> \<le> 1 / 2"
  unfolding round_half_even_def Let_def by (auto simp: abs_if) linarith+

text \<open>The rounding is to a nearest point of the grid of doubles around \<open>x\<close>.\<close>

lemma float_round_error:
  assumes "x \<noteq> 0"
  shows "\<bar>float_round x - x\<bar> \<le> pow2 (max \<lfloor>log 2 \<bar>x\<bar>\<rfloor> (- 1022) - 52) / 2"
proof -
  define q where "q = pow2 (max \<lfloor>log 2 \<bar>x\<bar>\<rfloor> (- 1022) - 52)"
  define y where "y = \<bar>x\<bar> / q"
  define r where "r = real_of_int (round_half_even y)"
  have q: "0 < q" by (simp add: q_def pow2_pos)
  have yq: "\<bar>x\<bar> = y * q" using q by (simp add: y_def)
  have "sgn x * \<bar>x\<bar> = x" by (simp add: sgn_mult_abs)
  then have xe: "x = sgn x * (y * q)" unfolding yq by simp
  have fe: "float_round x = sgn x * r * q"
    using assms by (simp add: float_round_def Let_def q_def r_def y_def)
  have "float_round x - x = sgn x * r * q - sgn x * (y * q)"
    using fe xe by linarith
  also have "\<dots> = sgn x * ((r - y) * q)" by (simp add: algebra_simps)
  finally have "\<bar>float_round x - x\<bar> = \<bar>r - y\<bar> * q"
    using assms q by (simp add: abs_mult abs_sgn_eq)
  also have "\<dots> \<le> (1 / 2) * q"
    using round_half_even_error [of y] q unfolding r_def by (intro mult_right_mono) simp_all
  finally show ?thesis by (simp add: q_def)
qed

section \<open>Notification and intake: what the handlers do with a reservation\<close>

lemma send_email_db:
  assumes "send_email e st n = (x, st')"
  shows "db_reservation st' = db_reservation st" "db_roomtype st' = db_roomtype st"
    "oid_counter st' = oid_counter st"
  using assms by (auto simp: send_email_def Let_def split: option.splits if_splits)

lemma send_email_returns:
  assumes "int_of_str (getenv_default e ''SMTP_PORT'' ''587'') = Some port"
  shows "\<exists>sent. fst (send_email e st n) = Inr sent"
proof (cases "truthy (getenv e ''SMTP_HOST'')")
  case True
  then show ?thesis using assms
    by (cases "smtp e \<lparr>s_host = or_else (getenv e ''SMTP_HOST'') [], s_port = port,
                s_login = (if truthy (getenv e ''SMTP_USER'') \<and> truthy (getenv e ''SMTP_PASS'')
                           then Some (or_else (getenv e ''SMTP_USER'') [], or_else (getenv e ''SMTP_PASS'') [])
                           else None),
                s_subject = n_subject n,
                s_from = getenv_default e ''SMTP_SENDER'' (or_else (getenv e ''SMTP_USER'') ''no-reply@example.com''),
                s_to = n_to n, s_body = n_body n\<rparr>")
      (auto simp: send_email_def Let_def)
next
  case False
  then show ?thesis using assms by (auto simp: send_email_def Let_def)
qed

lemma send_email_raises:
  assumes "int_of_str (getenv_default e ''SMTP_PORT'' ''587'') = None"
  shows "send_email e st n = (Inl (ValueError (getenv_default e ''SMTP_PORT'' ''587'')), st)"
  using assms by (simp add: send_email_def Let_def)

lemma send_email_unconfigured:
  assumes "int_of_str (getenv_default e ''SMTP_PORT'' ''587'') = Some port"
    and "\<not> truthy (getenv e ''SMTP_HOST'')"
  shows "send_email e st n =
    (Inr True, st\<lparr>stdout := stdout st @
       [''[Email] To: '' @ n_to n @ '' | Subject: '' @ n_subject n @ [CHR 0x0A] @ n_body n]\<rparr>)"
  using assms by (simp add: send_email_def Let_def)

lemma send_email_transport_failure:
  assumes "int_of_str (getenv_default e ''SMTP_PORT'' ''587'') = Some port"
    and "truthy (getenv e ''SMTP_HOST'')"
    and "\<forall>session. smtp e session = Some exn"
  shows "send_email e st n = (Inr False, st\<lparr>stdout := stdout st @ [''Email error: '' @ exn]\<rparr>)"
  using assms by (simp add: send_email_def Let_def)

lemma persist_and_notify_db:
  "db_reservation (snd (persist_and_notify e st r c s b)) =
     db_reservation st @ [(new_oid (oid_counter st), r)]"
  by (auto simp: persist_and_notify_def create_document_reservation_def Let_def
      split: sum.splits prod.splits dest: send_email_db(1))

lemma persisted_persist_and_notify:
  "persisted st (snd (persist_and_notify e st r c s b)) = [r]"
  by (simp add: persisted_def persist_and_notify_db)

lemma persisted_same: "persisted st st = []"
  by (simp add: persisted_def)

lemma persist_and_notify_response:
  assumes "EmailStr e (getenv_default e ''BOOKING_NOTIFICATION_EMAIL'' (g_email (r_guest r)))"
    and "int_of_str (getenv_default e ''SMTP_PORT'' ''587'') = Some port"
  shows "fst (persist_and_notify e st r c s b) =
     Inr \<lparr>resp_id = new_oid (oid_counter st), resp_confirmation_code = c\<rparr>"
proof -
  obtain sent where "fst (send_email e (snd (create_document_reservation st r))
      \<lparr>n_to = EmailStr_normalized e
         (getenv_default e ''BOOKING_NOTIFICATION_EMAIL'' (g_email (r_guest r))),
       n_subject = s, n_body = b, n_sent_at = None\<rparr>) = Inr sent"
    using send_email_returns [OF assms(2)] by blast
  then show ?thesis
    using assms(1)
    by (auto simp: persist_and_notify_def create_document_reservation_def Let_def
        new_EmailNotification_def split: sum.splits prod.splits)
qed

lemma persist_and_notify_code:
  assumes "fst (persist_and_notify e st r c s b) = Inr resp"
  shows "resp_confirmation_code resp = c" "resp_id resp = new_oid (oid_counter st)"
  using assms
  by (auto simp: persist_and_notify_def create_document_reservation_def Let_def
        split: sum.splits prod.splits)

lemma length_new_oid: "length (new_oid n) = 24"
  by (simp add: new_oid_def)


lemma Reservation_errors_Nil:
  "Reservation_errors r = [] \<longleftrightarrow> 1 \<le> r_guests r \<and> 0 \<le> r_total_price r \<and> length (r_currency r) = 3"
  by (auto simp: Reservation_errors_def)

lemma create_reservation_not_found:
  assumes "\<forall>rt. find_one_roomtype st (req_room_type_id p) \<noteq> Inr (Some rt)"
  shows "create_reservation e st p = (Inl (HTTPException 404 ''Room type not found''), st)"
  using assms by (auto simp: create_reservation_def split: sum.splits option.splits)

lemma create_reservation_bad_range:
  assumes "find_one_roomtype st (req_room_type_id p) = Inr (Some rt)"
    and "days_between (req_check_out p) (req_check_in p) \<le> 0"
  shows "create_reservation e st p =
    (Inl (HTTPException 400 ''check_out must be after check_in''), st)"
  using assms by (simp add: create_reservation_def Let_def)

lemma persisted_create_reservation:
  assumes "find_one_roomtype st (req_room_type_id p) = Inr (Some rt)"
    and "0 < days_between (req_check_out p) (req_check_in p)"
  shows "persisted st (snd (create_reservation e st p)) =
    (if 1 \<le> req_guests p \<and>
        0 \<le> float_mul (base_price_of rt) (days_between (req_check_out p) (req_check_in p))
     then [\<lparr>r_property_id = req_property_id p,
            r_room_type_id = req_room_type_id p,
            r_check_in = req_check_in p,
            r_check_out = req_check_out p,
            r_guests = req_guests p,
            r_total_price =
              float_mul (base_price_of rt) (days_between (req_check_out p) (req_check_in p)),
            r_currency = ''USD'',
            r_channel = ''direct'',
            r_status = ''confirmed'',
            r_guest = req_guest p,
            r_special_requests = req_special_requests p,
            r_confirmation_code = Some (generate_confirmation_code e ''RES'')\<rparr>]
     else [])"
  using assms
  by (simp add: create_reservation_def Let_def new_Reservation_def Reservation_errors_Nil
      persisted_persist_and_notify persisted_same)

lemma ota_webhook_bad_range:
  assumes "days_between (ota_check_out p) (ota_check_in p) \<le> 0"
  shows "ota_webhook e st p = (Inl (HTTPException 400 ''check_out must be after check_in''), st)"
  using assms by (simp add: ota_webhook_def Let_def)

text \<open>The price the webhook gives a reservation.\<close>

lemma persisted_ota_webhook:
  assumes "0 < days_between (ota_check_out p) (ota_check_in p)"
  shows "persisted st (snd (ota_webhook e st p)) =
    (let total =
       (case ota_total_price p of
          Some x \<Rightarrow> x
        | None \<Rightarrow>
            float_mul
              (case find_one_roomtype st (ota_room_type_id p) of
                 Inr (Some rt) \<Rightarrow> base_price_of rt
               | _ \<Rightarrow> 0)
              (days_between (ota_check_out p) (ota_check_in p)))
     in if 1 \<le> ota_guests p \<and> 0 \<le> total \<and> length (or_else (ota_currency p) ''USD'') = 3
        then [\<lparr>r_property_id = ota_property_id p,
               r_room_type_id = ota_room_type_id p,
               r_check_in = ota_check_in p,
               r_check_out = ota_check_out p,
               r_guests = ota_guests p,
               r_total_price = total,
               r_currency = or_else (ota_currency p) ''USD'',
               r_channel = ota_channel p,
               r_status = ''confirmed'',
               r_guest = ota_guest p,
               r_special_requests = None,
               r_confirmation_code =
                 Some (or_else (ota_confirmation_code p) (generate_confirmation_code e ''OTA''))\<rparr>]
        else [])"
  using assms
  by (auto simp: ota_webhook_def Let_def new_Reservation_def Reservation_errors_Nil
      persisted_persist_and_notify persisted_same split: option.splits sum.splits)


lemma create_reservation_response:
  assumes "find_one_roomtype st (req_room_type_id p) = Inr (Some rt)"
    and "0 < days_between (req_check_out p) (req_check_in p)"
    and "1 \<le> req_guests p" and "0 \<le> base_price_of rt"
    and "EmailStr e (getenv_default e ''BOOKING_NOTIFICATION_EMAIL'' (g_email (req_guest p)))"
    and "int_of_str (getenv_default e ''SMTP_PORT'' ''587'') = Some port"
  shows "fst (create_reservation e st p) =
    Inr \<lparr>resp_id = new_oid (oid_counter st),
         resp_confirmation_code = generate_confirmation_code e ''RES''\<rparr>"
proof -
  have "0 \<le> float_mul (base_price_of rt) (days_between (req_check_out p) (req_check_in p))"
    using assms(2,4) by (simp add: float_mul_nonneg)
  then show ?thesis
    using assms
    by (simp add: create_reservation_def Let_def new_Reservation_def Reservation_errors_Nil
        persist_and_notify_response)
qed

lemma create_reservation_success:
  assumes "fst (create_reservation e st p) = Inr resp"
  shows "resp_confirmation_code resp = generate_confirmation_code e ''RES''"
    and "resp_id resp = new_oid (oid_counter st)"
  using assms
  by (auto simp: create_reservation_def Let_def new_Reservation_def
      split: sum.splits option.splits if_splits dest: persist_and_notify_code)

lemma ota_webhook_response:
  assumes "0 < days_between (ota_check_out p) (ota_check_in p)"
    and "Reservation_errors
           \<lparr>r_property_id = ota_property_id p,
            r_room_type_id = ota_room_type_id p,
            r_check_in = ota_check_in p,
            r_check_out = ota_check_out p,
            r_guests = ota_guests p,
            r_total_price =
              (case ota_total_price p of
                 Some x \<Rightarrow> x
               | None \<Rightarrow>
                   float_mul
                     (case find_one_roomtype st (ota_room_type_id p) of
                        Inr (Some rt) \<Rightarrow> base_price_of rt
                      | _ \<Rightarrow> 0)
                     (days_between (ota_check_out p) (ota_check_in p))),
            r_currency = or_else (ota_currency p) ''USD'',
            r_channel = ota_channel p,
            r_status = ''confirmed'',
            r_guest = ota_guest p,
            r_special_requests = None,
            r_confirmation_code =
              Some (or_else (ota_confirmation_code p) (generate_confirmation_code e ''OTA''))\<rparr> = []"
    and "EmailStr e (getenv_default e ''BOOKING_NOTIFICATION_EMAIL'' (g_email (ota_guest p)))"
    and "int_of_str (getenv_default e ''SMTP_PORT'' ''587'') = Some port"
  shows "fst (ota_webhook e st p) =
    Inr \<lparr>resp_id = new_oid (oid_counter st),
         resp_confirmation_code =
           or_else (ota_confirmation_code p) (generate_confirmation_code e ''OTA'')\<rparr>"
  using assms
  by (auto simp: ota_webhook_def Let_def new_Reservation_def persist_and_notify_response
      split: option.splits sum.splits)

lemma ota_webhook_success:
  assumes "fst (ota_webhook e st p) = Inr resp"
  shows "resp_confirmation_code resp =
    or_else (ota_confirmation_code p) (generate_confirmation_code e ''OTA'')"
    and "resp_id resp = new_oid (oid_counter st)"
  using assms
  by (auto simp: ota_webhook_def Let_def new_Reservation_def
      split: sum.splits option.splits if_splits dest: persist_and_notify_code)

section \<open>The properties of the specification\<close>

subsection \<open>The examples, evaluated\<close>

lemma example_dates:
  "valid_date \<lparr>d_year = 2024, d_month = 1, d_day = 1\<rparr>"
  "valid_date \<lparr>d_year = 2024, d_month = 1, d_day = 4\<rparr>"
  "date_less \<lparr>d_year = 2024, d_month = 1, d_day = 1\<rparr> \<lparr>d_year = 2024, d_month = 1, d_day = 4\<rparr>"
  "days_between \<lparr>d_year = 2024, d_month = 1, d_day = 4\<rparr> \<lparr>d_year = 2024, d_month = 1, d_day = 1\<rparr> = 3"
  by (simp_all add: valid_date_def days_in_month_def DAYS_IN_MONTH_def date_less_def
      days_between_def toordinal_def days_before_year_def days_before_month_def
      DAYS_BEFORE_MONTH_def is_leap_def)

lemma example_find_R:
  "find_one_roomtype example_state ''65A1F0C2D4E5F6A7B8C9D0E1'' = Inr (Some room_R)"
  "find_one_roomtype example_state ''65a1f0c2d4e5f6a7b8c9d0e1'' = Inr (Some room_R)"
  by (simp_all add: find_one_roomtype_def ObjectId_def is_hex_def hex_lower_def
      is_ascii_space_def
      example_state_def room_R_def room_S_def room_T_def)

lemma example_price: "float_mul 100 3 = 300"
  using float_round_representable [of 300 300 0] by (simp add: float_mul_def pow2_def)

lemma example_booking_persisted:
  "length (persisted example_state
     (snd (create_reservation example_env example_state booking_request))) = 1"
proof -
  have f: "find_one_roomtype example_state (req_room_type_id booking_request) = Inr (Some room_R)"
    by (simp add: booking_request_def example_find_R)
  have n: "0 < days_between (req_check_out booking_request) (req_check_in booking_request)"
    by (simp add: booking_request_def example_dates)
  show ?thesis
    unfolding persisted_create_reservation [OF f n]
    by (simp add: booking_request_def example_dates base_price_of_def room_R_def example_price)
qed

lemma singleton_map:
  assumes "length xs = 1" and "\<forall>x \<in> set xs. f x = v"
  shows "map f xs = [v]"
  using assms by (cases xs) simp_all

lemma example_webhook_dates:
  "valid_date (ota_check_in webhook_payload)" "valid_date (ota_check_out webhook_payload)"
  "date_less (ota_check_in webhook_payload) (ota_check_out webhook_payload)"
  "days_between (ota_check_out webhook_payload) (ota_check_in webhook_payload) = 3"
  by (simp_all add: webhook_payload_def example_dates)

lemma example_booking_dates:
  "valid_date (req_check_in booking_request)" "valid_date (req_check_out booking_request)"
  "date_less (req_check_in booking_request) (req_check_out booking_request)"
  "days_between (req_check_out booking_request) (req_check_in booking_request) = 3"
  by (simp_all add: booking_request_def example_dates)

lemma example_find_none:
  "find_one_roomtype example_state ''65a1f0c2d4e5f6a7b8c9d0ff'' = Inr None"
  by (simp add: find_one_roomtype_def ObjectId_def is_hex_def hex_lower_def
      is_ascii_space_def
      example_state_def room_R_def room_S_def room_T_def)

lemma example_timestamp: "strftime_YmdHMS (utcnow example_env) = ''20240101123005''"
  by (simp add: example_env_def strftime_YmdHMS_def pad4_def pad2_def digit_def)

lemma example_env_facts:
  "getenv_default example_env name dflt = dflt"
  "getenv example_env name = None"
  "EmailStr example_env (g_email example_guest)"
  "int_of_str ''587'' = Some 587"
  by (simp_all add: getenv_default_def getenv_def example_env_def example_guest_def
      int_of_str_def strip_def is_space_def is_ascii_space_def is_digit_def digits_val_def
      digit_val_def)

lemma length_strftime_YmdHMS: "length (strftime_YmdHMS t) = 14"
  by (simp add: strftime_YmdHMS_def pad4_def pad2_def)

lemma example_webhook_persisted:
  "length (persisted example_state
     (snd (ota_webhook example_env example_state webhook_payload))) = 1"
proof -
  have n: "0 < days_between (ota_check_out webhook_payload) (ota_check_in webhook_payload)"
    by (simp add: example_webhook_dates)
  show ?thesis
    unfolding persisted_ota_webhook [OF n]
    by (simp add: webhook_payload_def or_else_def)
qed

lemma example_int_of_str_abc: "int_of_str ''abc'' = None"
  by (simp add: int_of_str_def strip_def is_space_def is_ascii_space_def is_digit_def)

lemma example_price_tenth:
  "float_mul (3602879701896397 / 36028797018963968) 3 = 1351079888211149 / 4503599627370496"
proof -
  have "float_round (10808639105689191 / 36028797018963968) =
      1351079888211149 / 4503599627370496"
    by (subst float_round_eval [of "- 2"]) (simp_all add: pow2_def round_half_even_def)
  then show ?thesis by (simp add: float_mul_def)
qed

subsection \<open>Direct bookings: the price\<close>

text \<open>
  C1, as the specification states it: every direct booking whose room type exists and
  whose check-out is after its check-in persists a reservation whose \<open>total_price\<close> is
  \<open>base_price * nights\<close> exactly. Two requests show otherwise. \<^verbatim>\<open>CreateReservationRequest\<close>
  puts no bound on \<open>guests\<close> and the \<^verbatim>\<open>Reservation\<close> model that the handler builds does:
  the example booking with \<open>guests = 0\<close> persists nothing. And the product at
  \<^verbatim>\<open>main.py:156\<close> is a product of doubles: with the base price \<^verbatim>\<open>0.1\<close> (the double
  \<open>3602879701896397 / 2^55\<close>) the three nights of the example are persisted at
  \<^verbatim>\<open>0.30000000000000004\<close> (the double \<open>1351079888211149 / 2^52\<close>), which is not three
  times the base price.
\<close>

theorem direct_total_price_counterexample:
  "find_one_roomtype example_state (req_room_type_id (booking_request\<lparr>req_guests := 0\<rparr>)) =
     Inr (Some room_R) \<and>
   date_less (req_check_in (booking_request\<lparr>req_guests := 0\<rparr>))
     (req_check_out (booking_request\<lparr>req_guests := 0\<rparr>)) \<and>
   persisted example_state
     (snd (create_reservation example_env example_state (booking_request\<lparr>req_guests := 0\<rparr>))) = [] \<and>
   map r_total_price (persisted
     (example_state\<lparr>db_roomtype :=
        [room_R\<lparr>rt_base_price := Some (3602879701896397 / 36028797018963968)\<rparr>]\<rparr>)
     (snd (create_reservation example_env
        (example_state\<lparr>db_roomtype :=
           [room_R\<lparr>rt_base_price := Some (3602879701896397 / 36028797018963968)\<rparr>]\<rparr>)
        booking_request))) = [1351079888211149 / 4503599627370496] \<and>
   (1351079888211149 / 4503599627370496 :: real) \<noteq> 3602879701896397 / 36028797018963968 * 3"
proof -
  let ?q = "booking_request\<lparr>req_guests := 0\<rparr>"
  have f: "find_one_roomtype example_state (req_room_type_id ?q) = Inr (Some room_R)"
    by (simp add: booking_request_def example_find_R)
  have n: "0 < days_between (req_check_out ?q) (req_check_in ?q)"
    by (simp add: example_booking_dates)
  have a: "persisted example_state (snd (create_reservation example_env example_state ?q)) = []"
    unfolding persisted_create_reservation [OF f n] by simp
  let ?rt = "room_R\<lparr>rt_base_price := Some (3602879701896397 / 36028797018963968)\<rparr>"
  let ?st = "example_state\<lparr>db_roomtype := [?rt]\<rparr>"
  have g: "find_one_roomtype ?st (req_room_type_id booking_request) = Inr (Some ?rt)"
    by (simp add: find_one_roomtype_def ObjectId_def is_hex_def hex_lower_def
      is_ascii_space_def
        booking_request_def room_R_def)
  have m: "0 < days_between (req_check_out booking_request) (req_check_in booking_request)"
    by (simp add: example_booking_dates)
  have b: "map r_total_price (persisted ?st (snd (create_reservation example_env ?st booking_request))) =
      [1351079888211149 / 4503599627370496]"
    unfolding persisted_create_reservation [OF g m]
    by (simp add: base_price_of_def example_booking_dates example_price_tenth)
      (simp add: booking_request_def)
  show ?thesis using f a b by (simp add: example_booking_dates)
qed

text \<open>
  C1, amended. A direct booking whose room type exists with a \<open>base_price\<close> that is not
  negative, with check-out after check-in and \<open>guests \<ge> 1\<close>, persists exactly one
  reservation, and its \<open>total_price\<close> is the product of doubles \<open>base_price * nights\<close>:
  the double nearest to the exact product (ties to the even significand), provided that
  this is below \<open>2^1024\<close>, where the product of doubles overflows. It is within half a
  unit in the last place of the exact product, and it is the exact product whenever
  that is itself a double (an integer below \<open>2^53\<close> in magnitude times a power of two that
  is at least \<open>2^-1074\<close>). In the example (base price 100, 2024-01-01 to 2024-01-04) the
  persisted total is 300.
\<close>

theorem direct_total_price:
  assumes "find_one_roomtype st (req_room_type_id p) = Inr (Some rt)"
    and "rt_base_price rt = Some b" and "0 \<le> b"
    and "valid_date (req_check_in p)" and "valid_date (req_check_out p)"
    and "date_less (req_check_in p) (req_check_out p)"
    and "1 \<le> req_guests p"
    and "float_round (b * real_of_int (days_between (req_check_out p) (req_check_in p))) < 2 ^ 1024"
  shows "map r_total_price (persisted st (snd (create_reservation e st p))) =
           [float_round (b * real_of_int (days_between (req_check_out p) (req_check_in p)))] \<and>
         \<bar>float_round (b * real_of_int (days_between (req_check_out p) (req_check_in p))) -
            b * real_of_int (days_between (req_check_out p) (req_check_in p))\<bar> \<le>
           pow2 (max \<lfloor>log 2 \<bar>b * real_of_int (days_between (req_check_out p) (req_check_in p))\<bar>\<rfloor>
                  (- 1022) - 52) / 2 \<and>
         (\<forall>m k. b * real_of_int (days_between (req_check_out p) (req_check_in p)) =
                  real_of_int m * pow2 k \<and> \<bar>m\<bar> < 2 ^ 53 \<and> - 1074 \<le> k \<longrightarrow>
            map r_total_price (persisted st (snd (create_reservation e st p))) =
              [b * real_of_int (days_between (req_check_out p) (req_check_in p))])"
proof -
  let ?n = "days_between (req_check_out p) (req_check_in p)"
  have n: "0 < ?n"
    using nights_pos_iff [OF assms(4,5)] assms(6) by simp
  have bp: "base_price_of rt = b" using assms(2) by (simp add: base_price_of_def)
  have nn: "0 \<le> float_mul b ?n" using assms(3) n by (simp add: float_mul_nonneg)
  have t: "map r_total_price (persisted st (snd (create_reservation e st p))) =
      [float_round (b * real_of_int ?n)]"
    unfolding persisted_create_reservation [OF assms(1) n] bp using nn assms(7)
    by (simp add: float_mul_def)
  have err: "\<bar>float_round (b * real_of_int ?n) - b * real_of_int ?n\<bar> \<le>
      pow2 (max \<lfloor>log 2 \<bar>b * real_of_int ?n\<bar>\<rfloor> (- 1022) - 52) / 2"
  proof (cases "b * real_of_int ?n = 0")
    case True
    show ?thesis unfolding True
      using pow2_pos [of "max \<lfloor>log 2 \<bar>0::real\<bar>\<rfloor> (- 1022) - 52"]
      by (simp add: float_round_0 less_imp_le)
  next
    case False
    then show ?thesis by (rule float_round_error)
  qed
  have ex: "float_round (b * real_of_int ?n) = b * real_of_int ?n"
    if "b * real_of_int ?n = real_of_int m * pow2 k" "\<bar>m\<bar> < 2 ^ 53" "- 1074 \<le> k" for m k
    using that by (rule float_round_representable)
  show ?thesis using t err ex by simp
qed

theorem direct_total_price_witness:
  "map r_total_price (persisted example_state
       (snd (create_reservation example_env example_state booking_request))) = [300]"
proof -
  have f: "find_one_roomtype example_state (req_room_type_id booking_request) = Inr (Some room_R)"
    by (simp add: booking_request_def example_find_R)
  have b: "rt_base_price room_R = Some 100" "(0::real) \<le> 100" "1 \<le> req_guests booking_request"
    by (simp_all add: room_R_def booking_request_def)
  have r: "(100::real) * real_of_int (days_between (req_check_out booking_request)
      (req_check_in booking_request)) = real_of_int 300 * pow2 0"
    "\<bar>300::int\<bar> < 2 ^ 53" "- 1074 \<le> (0::int)"
    by (simp_all add: example_booking_dates pow2_def)
  have o: "float_round (100 * real_of_int (days_between (req_check_out booking_request)
      (req_check_in booking_request))) < 2 ^ 1024"
    using example_price by (simp add: example_booking_dates float_mul_def)
  have "map r_total_price (persisted example_state
       (snd (create_reservation example_env example_state booking_request))) =
      [100 * real_of_int (days_between (req_check_out booking_request)
         (req_check_in booking_request))]"
    using direct_total_price [OF f b(1,2) example_booking_dates(1-3) b(3) o, of example_env] r
    by blast
  then show ?thesis by (simp add: example_booking_dates)
qed

subsection \<open>Direct bookings: currency, channel and status\<close>

text \<open>
  C6. Every reservation that a direct booking persists has currency \<open>USD\<close>, channel
  \<open>direct\<close> and status \<open>confirmed\<close>, whatever the request holds.
\<close>

theorem direct_fixed_fields:
  "\<forall>r \<in> set (persisted st (snd (create_reservation e st p))).
     r_currency r = ''USD'' \<and> r_channel r = ''direct'' \<and> r_status r = ''confirmed''"
proof (cases "\<exists>rt. find_one_roomtype st (req_room_type_id p) = Inr (Some rt)")
  case False
  then show ?thesis
    by (simp add: create_reservation_not_found persisted_same)
next
  case True
  then obtain rt where f: "find_one_roomtype st (req_room_type_id p) = Inr (Some rt)" ..
  show ?thesis
  proof (cases "0 < days_between (req_check_out p) (req_check_in p)")
    case True
    show ?thesis unfolding persisted_create_reservation [OF f True] by simp
  next
    case False
    then show ?thesis
      using create_reservation_bad_range [OF f] by (simp add: persisted_same)
  qed
qed

theorem direct_fixed_fields_witness:
  "map r_currency (persisted example_state
     (snd (create_reservation example_env example_state booking_request))) = [''USD''] \<and>
   map r_channel (persisted example_state
     (snd (create_reservation example_env example_state booking_request))) = [''direct''] \<and>
   map r_status (persisted example_state
     (snd (create_reservation example_env example_state booking_request))) = [''confirmed'']"
  using direct_fixed_fields [of example_state example_env booking_request]
    example_booking_persisted
  by (simp add: singleton_map)

subsection \<open>Direct bookings: a room type that does not exist\<close>

text \<open>
  C3. A direct booking whose \<open>room_type_id\<close> is the identifier of no document of the
  room type collection, be it well formed or not, is rejected with \<open>NotFound\<close>
  (status 404) and leaves the store as it was.
\<close>

theorem direct_unknown_room_type:
  assumes "\<forall>d \<in> set (db_roomtype st). ObjectId (req_room_type_id p) \<noteq> Inr (rt_id d)"
  shows "create_reservation e st p = (Inl NotFound, st) \<and> status_code NotFound = 404 \<and>
         persisted st (snd (create_reservation e st p)) = []"
proof -
  have "find_one_roomtype st (req_room_type_id p) \<noteq> Inr (Some rt)" for rt
  proof
    assume a: "find_one_roomtype st (req_room_type_id p) = Inr (Some rt)"
    then obtain oid where o: "ObjectId (req_room_type_id p) = Inr oid"
      and f: "find (\<lambda>d. rt_id d = oid) (db_roomtype st) = Some rt"
      by (auto simp: find_one_roomtype_def split: sum.splits)
    from f have "rt \<in> set (db_roomtype st)" "rt_id rt = oid"
      by (auto simp: find_Some_iff)
    with o assms show False by auto
  qed
  then show ?thesis
    by (simp add: create_reservation_not_found NotFound_def persisted_same)
qed

theorem direct_unknown_room_type_witness:
  "create_reservation example_env example_state
     (booking_request\<lparr>req_room_type_id := ''not-an-object-id''\<rparr>) =
     (Inl NotFound, example_state) \<and>
   create_reservation example_env example_state
     (booking_request\<lparr>req_room_type_id := ''65a1f0c2d4e5f6a7b8c9d0ff''\<rparr>) =
     (Inl NotFound, example_state)"
proof -
  have a: "\<forall>d \<in> set (db_roomtype example_state).
      ObjectId (req_room_type_id (booking_request\<lparr>req_room_type_id := ''not-an-object-id''\<rparr>))
        \<noteq> Inr (rt_id d)"
    by (simp add: ObjectId_def)
  have b: "\<forall>d \<in> set (db_roomtype example_state).
      ObjectId (req_room_type_id (booking_request\<lparr>req_room_type_id := ''65a1f0c2d4e5f6a7b8c9d0ff''\<rparr>))
        \<noteq> Inr (rt_id d)"
    by (simp add: ObjectId_def is_hex_def hex_lower_def is_ascii_space_def example_state_def
        room_R_def room_S_def
        room_T_def)
  show ?thesis
    using direct_unknown_room_type [OF a, of example_env]
      direct_unknown_room_type [OF b, of example_env] by simp
qed

subsection \<open>The bounds of a persisted reservation\<close>

text \<open>
  C10. Every reservation that either handler persists has \<open>total_price \<ge> 0\<close>,
  \<open>guests \<ge> 1\<close> and a currency of exactly three characters: the \<^verbatim>\<open>Reservation\<close> model
  checks these bounds when the handler builds it, before the insert. So a webhook
  request with a negative \<open>total_price\<close> persists nothing.
\<close>

theorem persisted_reservation_bounds:
  "(\<forall>r \<in> set (persisted st (snd (create_reservation e st p))).
      0 \<le> r_total_price r \<and> 1 \<le> r_guests r \<and> length (r_currency r) = 3) \<and>
   (\<forall>r \<in> set (persisted st (snd (ota_webhook e st q))).
      0 \<le> r_total_price r \<and> 1 \<le> r_guests r \<and> length (r_currency r) = 3) \<and>
   (\<forall>x. ota_total_price q = Some x \<and> x < 0 \<longrightarrow>
      persisted st (snd (ota_webhook e st q)) = [])"
proof (intro conjI)
  show "\<forall>r \<in> set (persisted st (snd (create_reservation e st p))).
      0 \<le> r_total_price r \<and> 1 \<le> r_guests r \<and> length (r_currency r) = 3"
  proof (cases "\<exists>rt. find_one_roomtype st (req_room_type_id p) = Inr (Some rt)")
    case False
    then show ?thesis by (simp add: create_reservation_not_found persisted_same)
  next
    case True
    then obtain rt where f: "find_one_roomtype st (req_room_type_id p) = Inr (Some rt)" ..
    show ?thesis
    proof (cases "0 < days_between (req_check_out p) (req_check_in p)")
      case True
      show ?thesis unfolding persisted_create_reservation [OF f True] by simp
    next
      case False
      then show ?thesis
        using create_reservation_bad_range [OF f] by (simp add: persisted_same)
    qed
  qed
next
  show "\<forall>r \<in> set (persisted st (snd (ota_webhook e st q))).
      0 \<le> r_total_price r \<and> 1 \<le> r_guests r \<and> length (r_currency r) = 3"
  proof (cases "0 < days_between (ota_check_out q) (ota_check_in q)")
    case True
    show ?thesis unfolding persisted_ota_webhook [OF True] by (simp add: Let_def)
  next
    case False
    then show ?thesis by (simp add: ota_webhook_bad_range persisted_same)
  qed
next
  show "\<forall>x. ota_total_price q = Some x \<and> x < 0 \<longrightarrow>
      persisted st (snd (ota_webhook e st q)) = []"
  proof (cases "0 < days_between (ota_check_out q) (ota_check_in q)")
    case True
    show ?thesis unfolding persisted_ota_webhook [OF True] by (auto simp: Let_def)
  next
    case False
    then show ?thesis by (simp add: ota_webhook_bad_range persisted_same)
  qed
qed

theorem persisted_reservation_bounds_witness:
  "persisted example_state
     (snd (ota_webhook example_env example_state
        (webhook_payload\<lparr>ota_total_price := Some (- 50)\<rparr>))) = [] \<and>
   map r_guests (persisted example_state
     (snd (create_reservation example_env example_state booking_request))) = [2]"
proof -
  have "ota_total_price (webhook_payload\<lparr>ota_total_price := Some (- 50)\<rparr>) = Some (- 50)"
    by simp
  then have a: "persisted example_state
     (snd (ota_webhook example_env example_state
        (webhook_payload\<lparr>ota_total_price := Some (- 50)\<rparr>))) = []"
    using persisted_reservation_bounds [of example_state example_env booking_request
        "webhook_payload\<lparr>ota_total_price := Some (- 50)\<rparr>"]
    by simp
  have f: "find_one_roomtype example_state (req_room_type_id booking_request) = Inr (Some room_R)"
    by (simp add: booking_request_def example_find_R)
  have n: "0 < days_between (req_check_out booking_request) (req_check_in booking_request)"
    by (simp add: example_booking_dates)
  have b: "map r_guests (persisted example_state
     (snd (create_reservation example_env example_state booking_request))) = [2]"
    unfolding persisted_create_reservation [OF f n]
    by (simp add: booking_request_def example_dates base_price_of_def room_R_def example_price)
  show ?thesis using a b by simp
qed

subsection \<open>A date range that is not positive\<close>

text \<open>
  C2, as the specification states it: every request of either channel with
  \<open>check_out \<le> check_in\<close> is rejected with \<open>InvalidRange\<close>. The direct handler looks the
  room type up first: a direct booking of a room type that does not exist, with
  \<open>check_out = check_in\<close>, is rejected with \<open>NotFound\<close> (404) instead.
\<close>

theorem invalid_range_counterexample:
  "date_le (req_check_out (booking_request\<lparr>req_room_type_id := ''65a1f0c2d4e5f6a7b8c9d0ff'',
                req_check_out := req_check_in booking_request\<rparr>))
           (req_check_in (booking_request\<lparr>req_room_type_id := ''65a1f0c2d4e5f6a7b8c9d0ff'',
                req_check_out := req_check_in booking_request\<rparr>)) \<and>
   create_reservation example_env example_state
     (booking_request\<lparr>req_room_type_id := ''65a1f0c2d4e5f6a7b8c9d0ff'',
        req_check_out := req_check_in booking_request\<rparr>) = (Inl NotFound, example_state) \<and>
   status_code NotFound = 404 \<and> NotFound \<noteq> InvalidRange"
proof -
  have "\<forall>rt. find_one_roomtype example_state
      (req_room_type_id (booking_request\<lparr>req_room_type_id := ''65a1f0c2d4e5f6a7b8c9d0ff'',
        req_check_out := req_check_in booking_request\<rparr>)) \<noteq> Inr (Some rt)"
    by (simp add: example_find_none)
  then show ?thesis
    by (simp add: create_reservation_not_found NotFound_def InvalidRange_def date_le_def)
qed

text \<open>
  C2, amended. A webhook request with \<open>check_out \<le> check_in\<close>, and a direct booking with
  \<open>check_out \<le> check_in\<close> whose room type exists, is rejected with \<open>InvalidRange\<close>
  (status 400); a direct booking with \<open>check_out \<le> check_in\<close> whose room type does not
  exist is rejected with \<open>NotFound\<close> (status 404). In each case the store is left as it
  was.
\<close>

theorem invalid_range_rejected:
  assumes "valid_date (ota_check_in p)" and "valid_date (ota_check_out p)"
    and "date_le (ota_check_out p) (ota_check_in p)"
    and "valid_date (req_check_in q)" and "valid_date (req_check_out q)"
    and "date_le (req_check_out q) (req_check_in q)"
  shows "ota_webhook e st p = (Inl InvalidRange, st) \<and>
         (\<forall>rt. find_one_roomtype st (req_room_type_id q) = Inr (Some rt) \<longrightarrow>
            create_reservation e st q = (Inl InvalidRange, st)) \<and>
         ((\<forall>rt. find_one_roomtype st (req_room_type_id q) \<noteq> Inr (Some rt)) \<longrightarrow>
            create_reservation e st q = (Inl NotFound, st)) \<and>
         status_code InvalidRange = 400 \<and> status_code NotFound = 404"
proof -
  have p: "days_between (ota_check_out p) (ota_check_in p) \<le> 0"
    using nights_nonpos_iff [OF assms(1,2)] assms(3) by simp
  have q: "days_between (req_check_out q) (req_check_in q) \<le> 0"
    using nights_nonpos_iff [OF assms(4,5)] assms(6) by simp
  show ?thesis
    using ota_webhook_bad_range [OF p] create_reservation_bad_range [OF _ q]
    by (simp add: InvalidRange_def NotFound_def create_reservation_not_found)
qed

theorem invalid_range_rejected_witness:
  "ota_webhook example_env example_state
     (webhook_payload\<lparr>ota_check_out := ota_check_in webhook_payload\<rparr>) =
     (Inl InvalidRange, example_state) \<and>
   create_reservation example_env example_state
     (booking_request\<lparr>req_check_out := req_check_in booking_request\<rparr>) =
     (Inl InvalidRange, example_state)"
proof -
  have a: "valid_date (ota_check_in (webhook_payload\<lparr>ota_check_out := ota_check_in webhook_payload\<rparr>))"
    "valid_date (ota_check_out (webhook_payload\<lparr>ota_check_out := ota_check_in webhook_payload\<rparr>))"
    "date_le (ota_check_out (webhook_payload\<lparr>ota_check_out := ota_check_in webhook_payload\<rparr>))
       (ota_check_in (webhook_payload\<lparr>ota_check_out := ota_check_in webhook_payload\<rparr>))"
    by (simp_all add: example_webhook_dates date_le_def)
  have b: "valid_date (req_check_in (booking_request\<lparr>req_check_out := req_check_in booking_request\<rparr>))"
    "valid_date (req_check_out (booking_request\<lparr>req_check_out := req_check_in booking_request\<rparr>))"
    "date_le (req_check_out (booking_request\<lparr>req_check_out := req_check_in booking_request\<rparr>))
       (req_check_in (booking_request\<lparr>req_check_out := req_check_in booking_request\<rparr>))"
    by (simp_all add: example_booking_dates date_le_def)
  have f: "find_one_roomtype example_state
      (req_room_type_id (booking_request\<lparr>req_check_out := req_check_in booking_request\<rparr>)) =
      Inr (Some room_R)"
    by (simp add: booking_request_def example_find_R)
  show ?thesis
    using invalid_range_rejected [OF a b, of example_env example_state] f by simp
qed

subsection \<open>Direct bookings: the response\<close>

text \<open>
  C7, as the specification states it: every direct booking whose room type exists and
  whose check-out is after its check-in is answered with an identifier and a
  confirmation code. \<^verbatim>\<open>CreateReservationRequest\<close> puts no bound on \<open>guests\<close>, and the
  \<^verbatim>\<open>Reservation\<close> model that the handler builds does: the example booking with
  \<open>guests = 0\<close> raises a \<^verbatim>\<open>ValidationError\<close> and has no such response.
\<close>

theorem direct_response_counterexample:
  "find_one_roomtype example_state (req_room_type_id (booking_request\<lparr>req_guests := 0\<rparr>)) =
     Inr (Some room_R) \<and>
   date_less (req_check_in (booking_request\<lparr>req_guests := 0\<rparr>))
     (req_check_out (booking_request\<lparr>req_guests := 0\<rparr>)) \<and>
   create_reservation example_env example_state (booking_request\<lparr>req_guests := 0\<rparr>) =
     (Inl (ValidationError [''guests'']), example_state)"
  by (simp add: create_reservation_def Let_def new_Reservation_def Reservation_errors_def
      booking_request_def example_find_R example_dates base_price_of_def room_R_def
      example_price)

text \<open>
  C7, amended. A direct booking whose room type exists with a base price that is not
  negative, whose check-out is strictly after its check-in and whose \<open>guests\<close> is at
  least 1, is answered with an identifier that is not empty and the confirmation code
  \<open>RES-\<close> followed by the UTC time as fourteen digits \<open>YYYYMMDDHHMMSS\<close>, provided the
  notification step does not raise: the recipient (the operator address of the
  environment, else the guest's) is an address the \<^verbatim>\<open>EmailNotification\<close> model accepts, and
  \<^verbatim>\<open>SMTP_PORT\<close> is unset or an integer.
\<close>

theorem direct_response:
  assumes "find_one_roomtype st (req_room_type_id p) = Inr (Some rt)"
    and "valid_date (req_check_in p)" and "valid_date (req_check_out p)"
    and "date_less (req_check_in p) (req_check_out p)"
    and "1 \<le> req_guests p" and "0 \<le> base_price_of rt"
    and "EmailStr e (getenv_default e ''BOOKING_NOTIFICATION_EMAIL'' (g_email (req_guest p)))"
    and "int_of_str (getenv_default e ''SMTP_PORT'' ''587'') = Some port"
  shows "\<exists>i. fst (create_reservation e st p) =
           Inr \<lparr>resp_id = i,
                resp_confirmation_code = ''RES-'' @ strftime_YmdHMS (utcnow e)\<rparr> \<and>
           i \<noteq> [] \<and> length (strftime_YmdHMS (utcnow e)) = 14"
proof -
  have n: "0 < days_between (req_check_out p) (req_check_in p)"
    using nights_pos_iff [OF assms(2,3)] assms(4) by simp
  have "new_oid (oid_counter st) \<noteq> []"
    using length_new_oid [of "oid_counter st"] by auto
  then show ?thesis
    using create_reservation_response [OF assms(1) n assms(5-8)]
    by (simp add: generate_confirmation_code_def length_strftime_YmdHMS)
qed

theorem direct_response_witness:
  "\<exists>i. fst (create_reservation example_env example_state booking_request) =
          Inr \<lparr>resp_id = i, resp_confirmation_code = ''RES-20240101123005''\<rparr> \<and> i \<noteq> []"
proof -
  have f: "find_one_roomtype example_state (req_room_type_id booking_request) = Inr (Some room_R)"
    by (simp add: booking_request_def example_find_R)
  have g: "1 \<le> req_guests booking_request" "0 \<le> base_price_of room_R"
    by (simp_all add: booking_request_def base_price_of_def room_R_def)
  have m: "EmailStr example_env
      (getenv_default example_env ''BOOKING_NOTIFICATION_EMAIL'' (g_email (req_guest booking_request)))"
    by (simp add: example_env_facts booking_request_def)
  have s: "int_of_str (getenv_default example_env ''SMTP_PORT'' ''587'') = Some 587"
    by (simp add: example_env_facts)
  show ?thesis
    using direct_response [OF f example_booking_dates(1-3) g m s]
    by (simp add: example_timestamp)
qed

subsection \<open>The webhook: the price\<close>

text \<open>
  C4, as the specification states it: every webhook request with valid dates persists
  a reservation, priced as supplied or as derived, and at 0 when the room type is
  missing. \<^verbatim>\<open>OTAWebhookPayload\<close> puts no bound on \<open>guests\<close>, and the \<^verbatim>\<open>Reservation\<close> model that
  the handler builds does: the example webhook with a room type that does not exist, no
  \<open>total_price\<close> and \<open>guests = 0\<close> raises a \<^verbatim>\<open>ValidationError\<close> and persists nothing.
\<close>

theorem webhook_total_price_counterexample:
  "date_less
     (ota_check_in (webhook_payload\<lparr>ota_room_type_id := ''65a1f0c2d4e5f6a7b8c9d0ff'',
        ota_total_price := None, ota_guests := 0\<rparr>))
     (ota_check_out (webhook_payload\<lparr>ota_room_type_id := ''65a1f0c2d4e5f6a7b8c9d0ff'',
        ota_total_price := None, ota_guests := 0\<rparr>)) \<and>
   find_one_roomtype example_state
     (ota_room_type_id (webhook_payload\<lparr>ota_room_type_id := ''65a1f0c2d4e5f6a7b8c9d0ff'',
        ota_total_price := None, ota_guests := 0\<rparr>)) = Inr None \<and>
   ota_webhook example_env example_state
     (webhook_payload\<lparr>ota_room_type_id := ''65a1f0c2d4e5f6a7b8c9d0ff'',
        ota_total_price := None, ota_guests := 0\<rparr>) =
     (Inl (ValidationError [''guests'']), example_state)"
  by (simp add: ota_webhook_def Let_def new_Reservation_def Reservation_errors_def
      example_webhook_dates example_find_none or_else_def float_mul_0)
    (simp add: webhook_payload_def)

text \<open>
  C4, amended. A webhook request with valid dates, \<open>guests \<ge> 1\<close> and a currency of three
  characters (after the default) persists exactly one reservation in each of these
  cases. A supplied \<open>total_price\<close> that is not negative is persisted as it is. An absent
  one is derived, when the room type exists with a \<open>base_price\<close> that is not negative, as
  the product of doubles \<open>base_price * nights\<close>: the double nearest to the exact product,
  provided that this is below \<open>2^1024\<close>. An absent one is 0 when the room type cannot be
  found or the lookup fails, and the reservation is persisted all the same. In the
  examples: 450 supplied is persisted as 450, a missing room type gives 0, and the room
  type at 100 a night gives 300 for three nights.
\<close>

theorem webhook_total_price:
  assumes "valid_date (ota_check_in p)" and "valid_date (ota_check_out p)"
    and "date_less (ota_check_in p) (ota_check_out p)"
    and "1 \<le> ota_guests p" and "length (or_else (ota_currency p) ''USD'') = 3"
  shows "(\<forall>x. ota_total_price p = Some x \<and> 0 \<le> x \<longrightarrow>
            map r_total_price (persisted st (snd (ota_webhook e st p))) = [x]) \<and>
         (\<forall>rt b. ota_total_price p = None \<and>
               find_one_roomtype st (ota_room_type_id p) = Inr (Some rt) \<and>
               rt_base_price rt = Some b \<and> 0 \<le> b \<and>
               float_round (b * real_of_int (days_between (ota_check_out p) (ota_check_in p)))
                 < 2 ^ 1024 \<longrightarrow>
            map r_total_price (persisted st (snd (ota_webhook e st p))) =
              [float_round
                 (b * real_of_int (days_between (ota_check_out p) (ota_check_in p)))]) \<and>
         (ota_total_price p = None \<and>
            (\<forall>rt. find_one_roomtype st (ota_room_type_id p) \<noteq> Inr (Some rt)) \<longrightarrow>
            map r_total_price (persisted st (snd (ota_webhook e st p))) = [0])"
proof -
  let ?n = "days_between (ota_check_out p) (ota_check_in p)"
  have n: "0 < ?n"
    using nights_pos_iff [OF assms(1,2)] assms(3) by simp
  have nn: "0 \<le> float_round (b * real_of_int ?n)" if "0 \<le> b" for b
    using that n by (intro float_round_nonneg) simp
  show ?thesis
    unfolding persisted_ota_webhook [OF n] using assms(4,5) n nn
    by (auto simp: Let_def base_price_of_def float_mul_def float_round_0
        split: sum.splits option.splits)
qed

theorem webhook_total_price_witness:
  "map r_total_price (persisted example_state
     (snd (ota_webhook example_env example_state webhook_payload))) = [450] \<and>
   map r_total_price (persisted example_state
     (snd (ota_webhook example_env example_state
        (webhook_payload\<lparr>ota_room_type_id := ''65a1f0c2d4e5f6a7b8c9d0ff'',
           ota_total_price := None\<rparr>)))) = [0] \<and>
   map r_total_price (persisted example_state
     (snd (ota_webhook example_env example_state
        (webhook_payload\<lparr>ota_total_price := None\<rparr>)))) = [300]"
proof -
  have g: "1 \<le> ota_guests webhook_payload"
    "length (or_else (ota_currency webhook_payload) ''USD'') = 3"
    "ota_total_price webhook_payload = Some 450"
    by (simp_all add: webhook_payload_def or_else_def)
  have a: "map r_total_price (persisted example_state
     (snd (ota_webhook example_env example_state webhook_payload))) = [450]"
    using webhook_total_price [OF example_webhook_dates(1-3) g(1,2), of example_state example_env] g(3)
    by simp
  let ?q = "webhook_payload\<lparr>ota_room_type_id := ''65a1f0c2d4e5f6a7b8c9d0ff'',
           ota_total_price := None\<rparr>"
  have q: "valid_date (ota_check_in ?q)" "valid_date (ota_check_out ?q)"
    "date_less (ota_check_in ?q) (ota_check_out ?q)" "1 \<le> ota_guests ?q"
    "length (or_else (ota_currency ?q) ''USD'') = 3"
    using example_webhook_dates g by simp_all
  have "\<forall>rt. find_one_roomtype example_state (ota_room_type_id ?q) \<noteq> Inr (Some rt)"
    by (simp add: example_find_none)
  then have b: "map r_total_price (persisted example_state
     (snd (ota_webhook example_env example_state ?q))) = [0]"
    using webhook_total_price [OF q, of example_state example_env] by simp
  let ?w = "webhook_payload\<lparr>ota_total_price := None\<rparr>"
  have w: "valid_date (ota_check_in ?w)" "valid_date (ota_check_out ?w)"
    "date_less (ota_check_in ?w) (ota_check_out ?w)" "1 \<le> ota_guests ?w"
    "length (or_else (ota_currency ?w) ''USD'') = 3"
    using example_webhook_dates g by simp_all
  have r: "float_round (100 * real_of_int 3) = 300"
    using example_price by (simp add: float_mul_def)
  have "ota_total_price ?w = None \<and>
      find_one_roomtype example_state (ota_room_type_id ?w) = Inr (Some room_R) \<and>
      rt_base_price room_R = Some 100 \<and> (0::real) \<le> 100 \<and>
      float_round (100 * real_of_int (days_between (ota_check_out ?w) (ota_check_in ?w))) < 2 ^ 1024"
    using r by (simp add: webhook_payload_def example_find_R room_R_def example_dates)
  then have "map r_total_price (persisted example_state
     (snd (ota_webhook example_env example_state ?w))) =
     [float_round (100 * real_of_int (days_between (ota_check_out ?w) (ota_check_in ?w)))]"
    using webhook_total_price [OF w, of example_state example_env] by blast
  then have c: "map r_total_price (persisted example_state
     (snd (ota_webhook example_env example_state ?w))) = [300]"
    using r by (simp add: example_webhook_dates)
  show ?thesis using a b c by simp
qed

subsection \<open>The webhook: the confirmation code\<close>

text \<open>
  C5, as the specification states it: for every webhook request with valid dates, a
  confirmation code that the caller supplies is used verbatim in the persisted
  reservation and in the response. The handler takes
  \<^verbatim>\<open>payload.confirmation_code or generate_confirmation_code("OTA")\<close>, and the empty string is
  false: the example webhook with the code \<open>""\<close> supplied is persisted with a generated
  code. And the example webhook with its code \<open>BK-7731\<close> and \<open>guests = 0\<close> raises a
  \<^verbatim>\<open>ValidationError\<close>: nothing is persisted and there is no response.
\<close>

theorem webhook_confirmation_code_counterexample:
  "ota_confirmation_code (webhook_payload\<lparr>ota_confirmation_code := Some ''''\<rparr>) = Some '''' \<and>
   date_less (ota_check_in (webhook_payload\<lparr>ota_confirmation_code := Some ''''\<rparr>))
     (ota_check_out (webhook_payload\<lparr>ota_confirmation_code := Some ''''\<rparr>)) \<and>
   map r_confirmation_code (persisted example_state
     (snd (ota_webhook example_env example_state
        (webhook_payload\<lparr>ota_confirmation_code := Some ''''\<rparr>)))) =
     [Some ''OTA-20240101123005''] \<and>
   ota_confirmation_code (webhook_payload\<lparr>ota_guests := 0\<rparr>) = Some ''BK-7731'' \<and>
   date_less (ota_check_in (webhook_payload\<lparr>ota_guests := 0\<rparr>))
     (ota_check_out (webhook_payload\<lparr>ota_guests := 0\<rparr>)) \<and>
   ota_webhook example_env example_state (webhook_payload\<lparr>ota_guests := 0\<rparr>) =
     (Inl (ValidationError [''guests'']), example_state)"
proof -
  let ?w = "webhook_payload\<lparr>ota_confirmation_code := Some ''''\<rparr>"
  have n: "0 < days_between (ota_check_out ?w) (ota_check_in ?w)"
    by (simp add: example_webhook_dates)
  have a: "map r_confirmation_code (persisted example_state
     (snd (ota_webhook example_env example_state ?w))) = [Some ''OTA-20240101123005'']"
    unfolding persisted_ota_webhook [OF n]
    by (simp add: webhook_payload_def or_else_def generate_confirmation_code_def
        example_timestamp)
  have b: "ota_webhook example_env example_state (webhook_payload\<lparr>ota_guests := 0\<rparr>) =
     (Inl (ValidationError [''guests'']), example_state)"
    by (simp add: ota_webhook_def Let_def new_Reservation_def Reservation_errors_def
        example_webhook_dates)
      (simp add: webhook_payload_def or_else_def)
  have c: "ota_confirmation_code (webhook_payload\<lparr>ota_guests := 0\<rparr>) = Some ''BK-7731''"
    by (simp add: webhook_payload_def)
  show ?thesis using a b c by (simp add: example_webhook_dates)
qed

text \<open>
  C5, amended. A webhook request with valid dates, \<open>guests \<ge> 1\<close>, a currency of three
  characters (after the default) and a price that is not negative (the supplied
  \<open>total_price\<close>, or else the \<open>base_price\<close> of the room type when that exists) persists
  exactly one reservation. Its confirmation code is the one the caller supplied when
  that is not empty; when none is supplied, or the empty string, it is \<open>OTA-\<close> followed
  by the UTC time as \<open>YYYYMMDDHHMMSS\<close>. When moreover the notification step does not raise
  (the recipient is a valid address and \<^verbatim>\<open>SMTP_PORT\<close> is unset or an integer), the request
  returns a response, and the response carries the same code.
\<close>

theorem webhook_confirmation_code:
  assumes "valid_date (ota_check_in p)" and "valid_date (ota_check_out p)"
    and "date_less (ota_check_in p) (ota_check_out p)"
    and "1 \<le> ota_guests p" and "length (or_else (ota_currency p) ''USD'') = 3"
    and "\<forall>x. ota_total_price p = Some x \<longrightarrow> 0 \<le> x"
    and "\<forall>rt b. ota_total_price p = None \<and>
           find_one_roomtype st (ota_room_type_id p) = Inr (Some rt) \<and>
           rt_base_price rt = Some b \<longrightarrow> 0 \<le> b"
  shows "(\<forall>c. ota_confirmation_code p = Some c \<and> c \<noteq> [] \<longrightarrow>
            map r_confirmation_code (persisted st (snd (ota_webhook e st p))) = [Some c] \<and>
            (EmailStr e (getenv_default e ''BOOKING_NOTIFICATION_EMAIL'' (g_email (ota_guest p))) \<and>
             int_of_str (getenv_default e ''SMTP_PORT'' ''587'') \<noteq> None \<longrightarrow>
               (\<exists>i. fst (ota_webhook e st p) = Inr \<lparr>resp_id = i, resp_confirmation_code = c\<rparr>))) \<and>
         (ota_confirmation_code p = None \<or> ota_confirmation_code p = Some [] \<longrightarrow>
            map r_confirmation_code (persisted st (snd (ota_webhook e st p))) =
              [Some (''OTA-'' @ strftime_YmdHMS (utcnow e))] \<and>
            (EmailStr e (getenv_default e ''BOOKING_NOTIFICATION_EMAIL'' (g_email (ota_guest p))) \<and>
             int_of_str (getenv_default e ''SMTP_PORT'' ''587'') \<noteq> None \<longrightarrow>
               (\<exists>i. fst (ota_webhook e st p) =
                  Inr \<lparr>resp_id = i,
                       resp_confirmation_code = ''OTA-'' @ strftime_YmdHMS (utcnow e)\<rparr>)))"
proof -
  let ?n = "days_between (ota_check_out p) (ota_check_in p)"
  let ?code = "or_else (ota_confirmation_code p) (generate_confirmation_code e ''OTA'')"
  let ?total = "case ota_total_price p of
          Some x \<Rightarrow> x
        | None \<Rightarrow>
            float_mul
              (case find_one_roomtype st (ota_room_type_id p) of
                 Inr (Some rt) \<Rightarrow> base_price_of rt
               | _ \<Rightarrow> 0) ?n"
  let ?r = "\<lparr>r_property_id = ota_property_id p,
               r_room_type_id = ota_room_type_id p,
               r_check_in = ota_check_in p,
               r_check_out = ota_check_out p,
               r_guests = ota_guests p,
               r_total_price = ?total,
               r_currency = or_else (ota_currency p) ''USD'',
               r_channel = ota_channel p,
               r_status = ''confirmed'',
               r_guest = ota_guest p,
               r_special_requests = None,
               r_confirmation_code = Some ?code\<rparr>"
  have n: "0 < ?n"
    using nights_pos_iff [OF assms(1,2)] assms(3) by simp
  have t: "0 \<le> ?total"
    using assms(6,7) n
    by (auto simp: base_price_of_def float_mul_0 intro!: float_mul_nonneg
        split: option.splits sum.splits)
  have ok: "Reservation_errors ?r = []"
    using assms(4,5) t by (simp add: Reservation_errors_Nil)
  have pc: "map r_confirmation_code (persisted st (snd (ota_webhook e st p))) = [Some ?code]"
    unfolding persisted_ota_webhook [OF n] using assms(4,5) t by (simp add: Let_def)
  have rs: "\<exists>i. fst (ota_webhook e st p) = Inr \<lparr>resp_id = i, resp_confirmation_code = ?code\<rparr>"
    if m: "EmailStr e (getenv_default e ''BOOKING_NOTIFICATION_EMAIL'' (g_email (ota_guest p)))"
      and i: "int_of_str (getenv_default e ''SMTP_PORT'' ''587'') \<noteq> None"
  proof -
    obtain port where "int_of_str (getenv_default e ''SMTP_PORT'' ''587'') = Some port"
      using i by blast
    from ota_webhook_response [OF n ok m this] show ?thesis by blast
  qed
  have o: "ota_confirmation_code p = Some c \<Longrightarrow> c \<noteq> [] \<Longrightarrow> ?code = c" for c
    by (simp add: or_else_def)
  have g: "ota_confirmation_code p = None \<or> ota_confirmation_code p = Some [] \<Longrightarrow>
      ?code = ''OTA-'' @ strftime_YmdHMS (utcnow e)"
    by (auto simp: or_else_def generate_confirmation_code_def)
  show ?thesis
  proof (intro conjI allI impI)
    fix c assume "ota_confirmation_code p = Some c \<and> c \<noteq> []"
    then have "?code = c" using o by blast
    then show "map r_confirmation_code (persisted st (snd (ota_webhook e st p))) = [Some c]"
      using pc by simp
    assume "EmailStr e (getenv_default e ''BOOKING_NOTIFICATION_EMAIL'' (g_email (ota_guest p))) \<and>
      int_of_str (getenv_default e ''SMTP_PORT'' ''587'') \<noteq> None"
    then show "\<exists>i. fst (ota_webhook e st p) = Inr \<lparr>resp_id = i, resp_confirmation_code = c\<rparr>"
      using rs \<open>?code = c\<close> by simp
  next
    assume "ota_confirmation_code p = None \<or> ota_confirmation_code p = Some []"
    then have c: "?code = ''OTA-'' @ strftime_YmdHMS (utcnow e)" by (rule g)
    then show "map r_confirmation_code (persisted st (snd (ota_webhook e st p))) =
        [Some (''OTA-'' @ strftime_YmdHMS (utcnow e))]"
      using pc by simp
    assume "EmailStr e (getenv_default e ''BOOKING_NOTIFICATION_EMAIL'' (g_email (ota_guest p))) \<and>
      int_of_str (getenv_default e ''SMTP_PORT'' ''587'') \<noteq> None"
    then show "\<exists>i. fst (ota_webhook e st p) =
        Inr \<lparr>resp_id = i, resp_confirmation_code = ''OTA-'' @ strftime_YmdHMS (utcnow e)\<rparr>"
      using rs c by simp
  qed
qed

theorem webhook_confirmation_code_witness:
  "map r_confirmation_code (persisted example_state
     (snd (ota_webhook example_env example_state webhook_payload))) = [Some ''BK-7731''] \<and>
   (\<exists>i. fst (ota_webhook example_env example_state webhook_payload) =
      Inr \<lparr>resp_id = i, resp_confirmation_code = ''BK-7731''\<rparr>) \<and>
   map r_confirmation_code (persisted example_state
     (snd (ota_webhook example_env example_state
        (webhook_payload\<lparr>ota_confirmation_code := None\<rparr>)))) =
     [Some ''OTA-20240101123005''] \<and>
   (\<exists>i. fst (ota_webhook example_env example_state
        (webhook_payload\<lparr>ota_confirmation_code := None\<rparr>)) =
      Inr \<lparr>resp_id = i, resp_confirmation_code = ''OTA-20240101123005''\<rparr>)"
proof -
  have g: "1 \<le> ota_guests webhook_payload"
    "length (or_else (ota_currency webhook_payload) ''USD'') = 3"
    "\<forall>x. ota_total_price webhook_payload = Some x \<longrightarrow> 0 \<le> x"
    "\<forall>rt b. ota_total_price webhook_payload = None \<and>
           find_one_roomtype example_state (ota_room_type_id webhook_payload) = Inr (Some rt) \<and>
           rt_base_price rt = Some b \<longrightarrow> 0 \<le> b"
    by (simp_all add: webhook_payload_def or_else_def)
  have m: "EmailStr example_env
      (getenv_default example_env ''BOOKING_NOTIFICATION_EMAIL'' (g_email (ota_guest webhook_payload))) \<and>
      int_of_str (getenv_default example_env ''SMTP_PORT'' ''587'') \<noteq> None"
    by (simp add: example_env_facts webhook_payload_def)
  have c: "ota_confirmation_code webhook_payload = Some ''BK-7731'' \<and> ''BK-7731'' \<noteq> []"
    by (simp add: webhook_payload_def)
  have a: "map r_confirmation_code (persisted example_state
       (snd (ota_webhook example_env example_state webhook_payload))) = [Some ''BK-7731''] \<and>
     (\<exists>i. fst (ota_webhook example_env example_state webhook_payload) =
        Inr \<lparr>resp_id = i, resp_confirmation_code = ''BK-7731''\<rparr>)"
    using webhook_confirmation_code [OF example_webhook_dates(1-3) g, of example_env] c m
    by blast
  let ?w = "webhook_payload\<lparr>ota_confirmation_code := None\<rparr>"
  have w: "valid_date (ota_check_in ?w)" "valid_date (ota_check_out ?w)"
    "date_less (ota_check_in ?w) (ota_check_out ?w)" "1 \<le> ota_guests ?w"
    "length (or_else (ota_currency ?w) ''USD'') = 3"
    "\<forall>x. ota_total_price ?w = Some x \<longrightarrow> 0 \<le> x"
    "\<forall>rt b. ota_total_price ?w = None \<and>
           find_one_roomtype example_state (ota_room_type_id ?w) = Inr (Some rt) \<and>
           rt_base_price rt = Some b \<longrightarrow> 0 \<le> b"
    using example_webhook_dates g by simp_all
  have mw: "EmailStr example_env
      (getenv_default example_env ''BOOKING_NOTIFICATION_EMAIL'' (g_email (ota_guest ?w))) \<and>
      int_of_str (getenv_default example_env ''SMTP_PORT'' ''587'') \<noteq> None"
    using m by simp
  have "ota_confirmation_code ?w = None \<or> ota_confirmation_code ?w = Some []" by simp
  then have b: "map r_confirmation_code (persisted example_state
       (snd (ota_webhook example_env example_state ?w))) =
       [Some (''OTA-'' @ strftime_YmdHMS (utcnow example_env))] \<and>
     (\<exists>i. fst (ota_webhook example_env example_state ?w) =
        Inr \<lparr>resp_id = i,
             resp_confirmation_code = ''OTA-'' @ strftime_YmdHMS (utcnow example_env)\<rparr>)"
    using webhook_confirmation_code [OF w, of example_env] mw by blast
  show ?thesis using a b by (simp add: example_timestamp)
qed

subsection \<open>Availability search\<close>

text \<open>The loop of \<^verbatim>\<open>search_availability\<close> appends one item per document, in order.\<close>

lemma availability_items_eq:
  "availability_items rts acc =
     acc @ map (\<lambda>rt. \<lparr>i_room_type_id = rt_id rt, i_name = rt_name rt,
                     i_description = rt_description rt, i_max_guests = rt_max_guests rt,
                     i_nightly_price = base_price_of rt, i_available = True\<rparr>) rts"
  by (induction rts arbitrary: acc) simp_all

text \<open>
  C8. An availability search lists exactly the room types of the store whose
  \<open>property_id\<close> is the requested one, in the store's order, each with its base price as
  the nightly price and marked available; two searches of the same store for the same
  property give the same result, whatever their dates and guest counts.
\<close>

theorem availability_all_room_types:
  "map i_room_type_id (search_availability st a) =
     map rt_id (filter (\<lambda>d. rt_property_id d = as_property_id a) (db_roomtype st)) \<and>
   map i_nightly_price (search_availability st a) =
     map base_price_of (filter (\<lambda>d. rt_property_id d = as_property_id a) (db_roomtype st)) \<and>
   (\<forall>i \<in> set (search_availability st a). i_available i) \<and>
   (as_property_id a = as_property_id b \<longrightarrow>
      search_availability st a = search_availability st b)"
  by (simp add: search_availability_def get_documents_roomtype_def availability_items_eq
      comp_def)

theorem availability_all_room_types_witness:
  "map i_room_type_id (search_availability example_state
     \<lparr>as_property_id = ''P'', as_check_in = \<lparr>d_year = 2024, d_month = 1, d_day = 1\<rparr>,
      as_check_out = \<lparr>d_year = 2024, d_month = 1, d_day = 4\<rparr>, as_guests = 2\<rparr>) =
     [''65a1f0c2d4e5f6a7b8c9d0e1'', ''65a1f0c2d4e5f6a7b8c9d0e2''] \<and>
   map i_nightly_price (search_availability example_state
     \<lparr>as_property_id = ''P'', as_check_in = \<lparr>d_year = 2024, d_month = 1, d_day = 1\<rparr>,
      as_check_out = \<lparr>d_year = 2024, d_month = 1, d_day = 4\<rparr>, as_guests = 2\<rparr>) =
     [100, 180] \<and>
   map i_available (search_availability example_state
     \<lparr>as_property_id = ''P'', as_check_in = \<lparr>d_year = 2024, d_month = 1, d_day = 1\<rparr>,
      as_check_out = \<lparr>d_year = 2024, d_month = 1, d_day = 4\<rparr>, as_guests = 2\<rparr>) =
     [True, True] \<and>
   search_availability example_state
     \<lparr>as_property_id = ''P'', as_check_in = \<lparr>d_year = 2024, d_month = 1, d_day = 1\<rparr>,
      as_check_out = \<lparr>d_year = 2024, d_month = 1, d_day = 4\<rparr>, as_guests = 2\<rparr> =
   search_availability example_state
     \<lparr>as_property_id = ''P'', as_check_in = \<lparr>d_year = 2025, d_month = 7, d_day = 9\<rparr>,
      as_check_out = \<lparr>d_year = 2025, d_month = 7, d_day = 2\<rparr>, as_guests = 40\<rparr>"
proof -
  let ?a = "\<lparr>as_property_id = ''P'', as_check_in = \<lparr>d_year = 2024, d_month = 1, d_day = 1\<rparr>,
      as_check_out = \<lparr>d_year = 2024, d_month = 1, d_day = 4\<rparr>, as_guests = 2\<rparr>"
  let ?b = "\<lparr>as_property_id = ''P'', as_check_in = \<lparr>d_year = 2025, d_month = 7, d_day = 9\<rparr>,
      as_check_out = \<lparr>d_year = 2025, d_month = 7, d_day = 2\<rparr>, as_guests = 40\<rparr>"
  note T = availability_all_room_types [of example_state ?a ?b]
  have f: "filter (\<lambda>d. rt_property_id d = as_property_id ?a) (db_roomtype example_state) =
      [room_R, room_S]"
    by (simp add: example_state_def room_R_def room_S_def room_T_def)
  have i: "map i_room_type_id (search_availability example_state ?a) =
      [''65a1f0c2d4e5f6a7b8c9d0e1'', ''65a1f0c2d4e5f6a7b8c9d0e2'']"
    using T [THEN conjunct1] unfolding f by (simp add: room_R_def room_S_def)
  have n: "map i_nightly_price (search_availability example_state ?a) = [100, 180]"
    using T [THEN conjunct2, THEN conjunct1] unfolding f
    by (simp add: room_R_def room_S_def base_price_of_def)
  have av: "\<forall>i \<in> set (search_availability example_state ?a). i_available i"
    using T [THEN conjunct2, THEN conjunct2, THEN conjunct1] .
  obtain x y where xy: "search_availability example_state ?a = [x, y]"
    using i by (cases "search_availability example_state ?a") auto
  have m: "map i_available (search_availability example_state ?a) = [True, True]"
    using av unfolding xy by simp
  have e: "search_availability example_state ?a = search_availability example_state ?b"
    using T [THEN conjunct2, THEN conjunct2, THEN conjunct2] by simp
  show ?thesis
    using i n m e by blast
qed

subsection \<open>Notification dispatch\<close>

text \<open>
  What holds of \<^verbatim>\<open>send_email\<close> is in the lemmas \<open>send_email_returns\<close>,
  \<open>send_email_unconfigured\<close> and \<open>send_email_transport_failure\<close> above: once the port
  has been parsed it returns a boolean, \<open>True\<close> with the message printed when no host is
  configured, \<open>False\<close> when the SMTP session raises. The handlers drop that boolean: the
  outcome of the SMTP session changes neither the response nor what a direct booking
  persists.
\<close>

lemma send_email_smtp_irrelevant:
  "(case fst (send_email (e\<lparr>smtp := f\<rparr>) st n) of Inl x \<Rightarrow> Inl x | Inr sent \<Rightarrow> Inr ()) =
   (case fst (send_email e st n) of Inl x \<Rightarrow> Inl x | Inr sent \<Rightarrow> Inr ())"
  "db_reservation (snd (send_email (e\<lparr>smtp := f\<rparr>) st n)) = db_reservation (snd (send_email e st n))"
  by (auto simp: send_email_def Let_def getenv_def getenv_default_def split: option.splits)

lemma persist_and_notify_smtp_irrelevant:
  "fst (persist_and_notify (e\<lparr>smtp := f\<rparr>) st r c s b) = fst (persist_and_notify e st r c s b)"
proof -
  let ?st1 = "snd (create_document_reservation st r)"
  let ?n = "\<lparr>n_to = EmailStr_normalized e
               (getenv_default e ''BOOKING_NOTIFICATION_EMAIL'' (g_email (r_guest r))),
             n_subject = s, n_body = b, n_sent_at = None\<rparr>"
  have g: "getenv_default (e\<lparr>smtp := f\<rparr>) k d = getenv_default e k d" for k d
    by (simp add: getenv_default_def)
  show ?thesis
    using send_email_smtp_irrelevant(1) [where e = e and f = f and st = ?st1 and n = ?n]
    by (auto simp: persist_and_notify_def create_document_reservation_def Let_def g
        new_EmailNotification_def split: sum.splits prod.splits)
qed

lemma create_reservation_smtp_irrelevant:
  "fst (create_reservation (e\<lparr>smtp := f\<rparr>) st p) = fst (create_reservation e st p)"
  "persisted st (snd (create_reservation (e\<lparr>smtp := f\<rparr>) st p)) =
     persisted st (snd (create_reservation e st p))"
proof -
  have d: "direct_body (e\<lparr>smtp := f\<rparr>) r c n = direct_body e r c n" for r c n
    by (simp add: direct_body_def total_text_def)
  have g: "generate_confirmation_code (e\<lparr>smtp := f\<rparr>) x = generate_confirmation_code e x" for x
    by (simp add: generate_confirmation_code_def)
  show "fst (create_reservation (e\<lparr>smtp := f\<rparr>) st p) = fst (create_reservation e st p)"
    by (simp add: create_reservation_def Let_def d g persist_and_notify_smtp_irrelevant
        split: sum.splits option.splits)
  show "persisted st (snd (create_reservation (e\<lparr>smtp := f\<rparr>) st p)) =
     persisted st (snd (create_reservation e st p))"
    by (simp add: create_reservation_def Let_def d g persisted_persist_and_notify
        split: sum.splits option.splits)
qed

text \<open>
  C9. Notification dispatch never raises to the intake paths, and a failed dispatch
  neither fails the booking request nor rolls the reservation back. The source parses
  \<^verbatim>\<open>int(os.getenv("SMTP_PORT", "587"))\<close> before it looks at the host and outside its
  \<^verbatim>\<open>try\<close> block: in the example environment with \<^verbatim>\<open>SMTP_PORT=abc\<close> and no host,
  \<^verbatim>\<open>send_email\<close> raises \<^verbatim>\<open>ValueError\<close> instead of printing the message and returning
  \<open>True\<close>, and the example booking fails with that exception after its reservation has
  been persisted.
\<close>

theorem send_email_bad_port_raises:
  "send_email (example_env\<lparr>environ := (\<lambda>name. if name = ''SMTP_PORT'' then Some ''abc'' else None)\<rparr>)
     example_state
     \<lparr>n_to = ''ada@example.com'', n_subject = ''New Reservation'', n_body = ''body'',
      n_sent_at = None\<rparr> =
     (Inl (ValueError ''abc''), example_state) \<and>
   fst (create_reservation
     (example_env\<lparr>environ := (\<lambda>name. if name = ''SMTP_PORT'' then Some ''abc'' else None)\<rparr>)
     example_state booking_request) = Inl (ValueError ''abc'') \<and>
   length (persisted example_state (snd (create_reservation
     (example_env\<lparr>environ := (\<lambda>name. if name = ''SMTP_PORT'' then Some ''abc'' else None)\<rparr>)
     example_state booking_request))) = 1"
proof -
  let ?e = "example_env\<lparr>environ := (\<lambda>name. if name = ''SMTP_PORT'' then Some ''abc'' else None)\<rparr>"
  have p: "getenv_default ?e ''SMTP_PORT'' ''587'' = ''abc''"
    by (simp add: getenv_default_def)
  have b: "getenv_default ?e ''BOOKING_NOTIFICATION_EMAIL'' d = d" for d
    by (simp add: getenv_default_def)
  have r: "int_of_str (getenv_default ?e ''SMTP_PORT'' ''587'') = None"
    unfolding p by (rule example_int_of_str_abc)
  have s: "send_email ?e st n = (Inl (ValueError ''abc''), st)" for st n
    using send_email_raises [OF r, of st n] unfolding p .
  have f: "find_one_roomtype example_state (req_room_type_id booking_request) = Inr (Some room_R)"
    by (simp add: booking_request_def example_find_R)
  have n: "0 < days_between (req_check_out booking_request) (req_check_in booking_request)"
    by (simp add: example_booking_dates)
  have m: "EmailStr ?e (g_email example_guest)"
    by (simp add: example_env_def example_guest_def)
  have c: "fst (create_reservation ?e example_state booking_request) = Inl (ValueError ''abc'')"
    using f n m
    by (simp add: create_reservation_def Let_def new_Reservation_def Reservation_errors_def
        persist_and_notify_def create_document_reservation_def new_EmailNotification_def b s
        base_price_of_def room_R_def example_booking_dates example_price)
      (simp add: booking_request_def)
  have l: "length (persisted example_state (snd (create_reservation ?e example_state booking_request))) = 1"
    unfolding persisted_create_reservation [OF f n]
    by (simp add: booking_request_def example_dates base_price_of_def room_R_def example_price)
  show ?thesis using s c l by simp
qed

end
